theory Spec2Isabelle
  imports Complex_Main
begin

section \<open>Tensor entries\<close>

text \<open>
  The networks compute on float32 tensors. A tensor entry is modelled as a finite
  number, idealised as a real (no rounding, no overflow to infinity), or as one of the
  three exceptional values of IEEE arithmetic. The exceptional values are kept because
  several guards of the source (\<^verbatim>\<open>divide_no_nan\<close>, \<^verbatim>\<open>clip_by_value\<close>) exist only
  to avoid them. Signed zeros are not distinguished: a zero divisor counts as \<open>+0\<close>,
  which is what the counts and magnitudes the source divides by are.
\<close>

datatype tfloat = Fin real | PInf | NInf | NaN

fun tf_abs :: "tfloat \<Rightarrow> tfloat" where
  "tf_abs (Fin x) = Fin \<bar>x\<bar>"
| "tf_abs PInf = PInf"
| "tf_abs NInf = PInf"
| "tf_abs NaN = NaN"

fun tf_add :: "tfloat \<Rightarrow> tfloat \<Rightarrow> tfloat" where
  "tf_add NaN b = NaN"
| "tf_add a NaN = NaN"
| "tf_add (Fin x) (Fin y) = Fin (x + y)"
| "tf_add PInf NInf = NaN"
| "tf_add NInf PInf = NaN"
| "tf_add PInf b = PInf"
| "tf_add NInf b = NInf"
| "tf_add (Fin x) b = b"

fun tf_mul :: "tfloat \<Rightarrow> tfloat \<Rightarrow> tfloat" where
  "tf_mul NaN b = NaN"
| "tf_mul a NaN = NaN"
| "tf_mul (Fin x) (Fin y) = Fin (x * y)"
| "tf_mul (Fin x) PInf = (if x = 0 then NaN else if 0 < x then PInf else NInf)"
| "tf_mul (Fin x) NInf = (if x = 0 then NaN else if 0 < x then NInf else PInf)"
| "tf_mul PInf (Fin y) = (if y = 0 then NaN else if 0 < y then PInf else NInf)"
| "tf_mul NInf (Fin y) = (if y = 0 then NaN else if 0 < y then NInf else PInf)"
| "tf_mul PInf PInf = PInf"
| "tf_mul PInf NInf = NInf"
| "tf_mul NInf PInf = NInf"
| "tf_mul NInf NInf = PInf"

text \<open>
  Division: a finite nonzero number over zero is an infinity, and \<open>0 / 0\<close> and
  \<open>\<infinity> / \<infinity>\<close> are NaN. (HOL's own \<open>x / 0 = 0\<close> on the reals is never relied on.)
\<close>

fun tf_div :: "tfloat \<Rightarrow> tfloat \<Rightarrow> tfloat" where
  "tf_div NaN b = NaN"
| "tf_div a NaN = NaN"
| "tf_div (Fin x) (Fin y) =
     (if y \<noteq> 0 then Fin (x / y)
      else if x = 0 then NaN
      else if 0 < x then PInf else NInf)"
| "tf_div (Fin x) b = Fin 0"
| "tf_div PInf (Fin y) = (if 0 \<le> y then PInf else NInf)"
| "tf_div NInf (Fin y) = (if 0 \<le> y then NInf else PInf)"
| "tf_div a b = NaN"

text \<open>\<^verbatim>\<open>tf.math.divide_no_nan(x, y)\<close>: 0 wherever the divisor is zero.\<close>

definition divide_no_nan :: "tfloat \<Rightarrow> tfloat \<Rightarrow> tfloat" where
  "divide_no_nan x y = (if y = Fin 0 then Fin 0 else tf_div x y)"

text \<open>\<^verbatim>\<open>tf.reduce_sum\<close> over all entries, and \<^verbatim>\<open>tf.reduce_mean\<close>: the sum over the
  number of entries, which is \<open>0 / 0\<close> on an empty tensor.\<close>

definition reduce_sum :: "tfloat list \<Rightarrow> tfloat" where
  "reduce_sum xs = foldl tf_add (Fin 0) xs"

definition reduce_mean :: "tfloat list \<Rightarrow> tfloat" where
  "reduce_mean xs = tf_div (reduce_sum xs) (Fin (real (length xs)))"

text \<open>\<^verbatim>\<open>tf.less(x, 0.0)\<close> on one entry: a comparison with NaN is false.\<close>

fun tf_less_zero :: "tfloat \<Rightarrow> bool" where
  "tf_less_zero (Fin x) = (x < 0)"
| "tf_less_zero NInf = True"
| "tf_less_zero a = False"

text \<open>\<^verbatim>\<open>tf.boolean_mask(t, mask)\<close>: the entries of \<open>t\<close> (flattened, row by row) whose mask
  is true, as a one-dimensional tensor.\<close>

definition boolean_mask :: "'a list list \<Rightarrow> bool list list \<Rightarrow> 'a list" where
  "boolean_mask t msk = map fst (filter snd (zip (concat t) (concat msk)))"

section \<open>The negative-density penalty of the HetSIREN training step\<close>

text \<open>
  \<^verbatim>\<open>het_siren.AutoEncoder.train_step\<close>, lines 712 to 717, on the corrected density
  \<^verbatim>\<open>delta_het\<close> (the decoded delta plus the generator's base values, one row per batch
  element):
  \<^verbatim>\<open>
    mask = tf.less(delta_het, 0.0)
    delta_neg = tf.boolean_mask(delta_het, mask)
    delta_neg_size = tf.cast(tf.shape(delta_neg)[-1], dtype=tf.float32)
    delta_neg = tf.reduce_mean(tf.abs(delta_neg))
    neg_loss_het = self.l1_lambda * delta_neg / delta_neg_size
  \<close>
\<close>

definition neg_loss_het :: "real \<Rightarrow> tfloat list list \<Rightarrow> tfloat" where
  "neg_loss_het l1_lambda delta_het =
     (let msk = map (map tf_less_zero) delta_het;
          delta_neg = boolean_mask delta_het msk;
          delta_neg_size = Fin (real (length delta_neg));
          delta_neg_mean = reduce_mean (map tf_abs delta_neg)
      in tf_div (tf_mul (Fin l1_lambda) delta_neg_mean) delta_neg_size)"

text \<open>The same lines in \<^verbatim>\<open>test_step\<close> (830 to 838) stand under \<^verbatim>\<open>if self.only_pos\<close>,
  with \<^verbatim>\<open>neg_loss_het = 0.0\<close> otherwise.\<close>

definition neg_loss_het_test :: "bool \<Rightarrow> real \<Rightarrow> tfloat list list \<Rightarrow> tfloat" where
  "neg_loss_het_test only_pos l1_lambda delta_het =
     (if only_pos then neg_loss_het l1_lambda delta_het else Fin 0)"

section \<open>The Fourier-domain reconstruction mask\<close>

text \<open>
  \<^verbatim>\<open>het_siren.AutoEncoder.train_step\<close>, lines 729 to 730 (and again 738 to 739), on the
  mask as the generator's \<^verbatim>\<open>resizeImageFourier\<close> returned it (the entries of the tensor
  in any fixed order; both operations are element-wise):
  \<^verbatim>\<open>
    mask_imgs = tf.abs(mask_imgs)
    mask_imgs = tf.math.divide_no_nan(mask_imgs, mask_imgs)
  \<close>
\<close>

definition reconstruction_mask :: "tfloat list \<Rightarrow> tfloat list" where
  "reconstruction_mask mask_imgs =
     (let magnitude = map tf_abs mask_imgs
      in map2 divide_no_nan magnitude magnitude)"

section \<open>Angular distances\<close>

text \<open>\<^verbatim>\<open>tf.clip_by_value(x, lo, hi)\<close> is \<^verbatim>\<open>minimum(maximum(x, lo), hi)\<close>; \<^verbatim>\<open>tf.acos\<close> is
  NaN outside \<open>[-1, 1]\<close>.\<close>

fun clip_by_value :: "tfloat \<Rightarrow> real \<Rightarrow> real \<Rightarrow> tfloat" where
  "clip_by_value (Fin x) lo hi = Fin (min (max x lo) hi)"
| "clip_by_value PInf lo hi = Fin hi"
| "clip_by_value NInf lo hi = Fin (min lo hi)"
| "clip_by_value NaN lo hi = NaN"

fun tf_acos :: "tfloat \<Rightarrow> tfloat" where
  "tf_acos (Fin x) = (if - 1 \<le> x \<and> x \<le> 1 then Fin (arccos x) else NaN)"
| "tf_acos a = NaN"

text \<open>\<^verbatim>\<open>reconsiren.safe_acos\<close>:
  \<^verbatim>\<open>return tf.acos(tf.clip_by_value(x, -1.0 + 1e-7, 1.0 - 1e-7))\<close>\<close>

definition safe_acos :: "tfloat \<Rightarrow> tfloat" where
  "safe_acos x = tf_acos (clip_by_value x (- 1 + 1 / 10 ^ 7) (1 - 1 / 10 ^ 7))"

text \<open>
  \<^verbatim>\<open>reconsiren.uniform_distribution_loss\<close>. \<open>vectors\<close> has one row of three numbers per
  batch element; \<^verbatim>\<open>tf.matmul(vectors, vectors, transpose_b=True)\<close> is the matrix of the
  rows' inner products.
\<close>

definition inner_prod :: "real list \<Rightarrow> real list \<Rightarrow> real" where
  "inner_prod u v = sum_list (map2 (*) u v)"

definition cosine_similarity :: "real list list \<Rightarrow> tfloat list list" where
  "cosine_similarity vectors = map (\<lambda>u. map (\<lambda>v. Fin (inner_prod u v)) vectors) vectors"

definition angular_distances :: "real list list \<Rightarrow> tfloat list list" where
  "angular_distances vectors = map (map safe_acos) (cosine_similarity vectors)"

definition uniform_distribution_loss :: "real list list \<Rightarrow> tfloat" where
  "uniform_distribution_loss vectors =
     (let batch_size = length vectors;
          batch_size_f = real batch_size;
          epsilon = 1 / 10 ^ 4;
          repulsion = map (map (\<lambda>a. tf_div (Fin 1) (tf_add a (Fin epsilon))))
                        (angular_distances vectors);
          msk = map (\<lambda>i. map (\<lambda>j. Fin (1 - (if i = j then 1 else 0))) [0..<batch_size])
                  [0..<batch_size];
          masked = map2 (map2 tf_mul) repulsion msk
      in tf_div (reduce_sum (concat masked)) (Fin (batch_size_f * (batch_size_f - 1))))"

section \<open>Errors\<close>

text \<open>An exception that reaches the caller is a value: the left summand of the result.\<close>

datatype py_error =
    ValueError string
  | IndexError string
  | TypeError string
  | ZeroDivisionError string
  | InvalidArgumentError string

text \<open>A loop over a list that stops at the first exception.\<close>

fun for_each :: "('a \<Rightarrow> py_error + 'b) \<Rightarrow> 'a list \<Rightarrow> py_error + 'b list" where
  "for_each f [] = Inr []"
| "for_each f (x # xs) =
     (case f x of
        Inl e \<Rightarrow> Inl e
      | Inr y \<Rightarrow> (case for_each f xs of Inl e \<Rightarrow> Inl e | Inr ys \<Rightarrow> Inr (y # ys)))"

section \<open>The generator and volume evaluation (HetSIREN)\<close>

text \<open>
  The data generator is a collaborator whose class is not part of the sources; the
  networks read and write its attributes. The record holds the attributes that the
  modelled methods touch, each under the attribute's name with the prefix \<open>g_\<close>:
  the coordinate grid \<^verbatim>\<open>coords\<close> (of a type left open), the integer voxel
  \<^verbatim>\<open>indices\<close> (rows \<open>z, y, x\<close>), the base \<^verbatim>\<open>values\<close>, the side \<^verbatim>\<open>xsize\<close> of the
  volume and the sub-sampling \<^verbatim>\<open>step\<close>.
\<close>

record 'c generator =
  g_coords :: 'c
  g_indices :: "(int \<times> int \<times> int) list"
  g_values :: "real list"
  g_xsize :: nat
  g_step :: nat

type_synonym volume = "real list list list"

definition zeros3 :: "nat \<Rightarrow> volume" where
  "zeros3 n = replicate n (replicate n (replicate n 0))"

definition vmap :: "(real \<Rightarrow> real) \<Rightarrow> volume \<Rightarrow> volume" where
  "vmap f vol = map (map (map f)) vol"

definition vmap2 :: "(real \<Rightarrow> real \<Rightarrow> real) \<Rightarrow> volume \<Rightarrow> volume \<Rightarrow> volume" where
  "vmap2 f a b = map2 (map2 (map2 f)) a b"

text \<open>numpy reads an index \<open>i\<close> of an axis of length \<open>n\<close> from the end when it is negative,
  and raises IndexError outside \<open>[-n, n)\<close>.\<close>

definition np_index :: "nat \<Rightarrow> int \<Rightarrow> nat option" where
  "np_index n i =
     (if 0 \<le> i \<and> i < int n then Some (nat i)
      else if - int n \<le> i \<and> i < 0 then Some (nat (i + int n))
      else None)"

definition assign_voxel :: "nat \<Rightarrow> volume \<Rightarrow> (int \<times> int \<times> int) \<times> real \<Rightarrow> py_error + volume" where
  "assign_voxel n vol p =
     (case p of ((z, y, x), v) \<Rightarrow>
        (case (np_index n z, np_index n y, np_index n x) of
           (Some a, Some b, Some c) \<Rightarrow> Inr (vol[a := (vol ! a)[b := (vol ! a ! b)[c := v]]])
         | _ \<Rightarrow> Inl (IndexError ''index is out of bounds'')))"

fun assign_voxels :: "nat \<Rightarrow> volume \<Rightarrow> ((int \<times> int \<times> int) \<times> real) list \<Rightarrow> py_error + volume" where
  "assign_voxels n vol [] = Inr vol"
| "assign_voxels n vol (p # ps) =
     (case assign_voxel n vol p of Inl e \<Rightarrow> Inl e | Inr vol' \<Rightarrow> assign_voxels n vol' ps)"

text \<open>
  \<^verbatim>\<open>volume_grids[idx, o_z, o_y, o_x] = values[idx]\<close>: an assignment through index
  arrays, so a voxel named twice keeps the last value. The values must be as many as
  the indices, or a single one (which numpy repeats).
\<close>

definition index_assign :: "nat \<Rightarrow> volume \<Rightarrow> (int \<times> int \<times> int) list \<Rightarrow> real list \<Rightarrow> py_error + volume" where
  "index_assign n vol idx vs =
     (if length vs = length idx then assign_voxels n vol (zip idx vs)
      else if length vs = 1 then assign_voxels n vol (map (\<lambda>i. (i, hd vs)) idx)
      else Inl (ValueError ''shape mismatch''))"

text \<open>\<^verbatim>\<open>self.generator.values[None, :] + self.decode_het(x_het)\<close>, one row of the batch:
  rows of equal length are added entry by entry, a row of length one is repeated.\<close>

definition add_rows :: "real list \<Rightarrow> real list \<Rightarrow> py_error + real list" where
  "add_rows a b =
     (if length a = length b then Inr (map2 (+) a b)
      else if length a = 1 then Inr (map (\<lambda>y. hd a + y) b)
      else if length b = 1 then Inr (map (\<lambda>x. x + hd b) a)
      else Inl (InvalidArgumentError ''Incompatible shapes''))"

text \<open>
  \<^verbatim>\<open>het_siren.Decoder.eval_volume_het\<close>, one pass of its loop over the batch. The
  network \<^verbatim>\<open>decode_het\<close> and the Fourier filter \<^verbatim>\<open>filterVol\<close> are parameters: any
  functions of these types. (The source adds the base values to the decoded rows of
  the whole batch before the loop; row by row it is the addition made here.) First the
  part up to the filter,
  \<^verbatim>\<open>
    values = self.generator.values[None, :] + self.decode_het(x_het)
    volume_grids[idx, o_z, o_y, o_x] = values[idx]
    if filter:
        volume_grids[idx] = filterVol(volume_grids[idx])
  \<close>
\<close>

definition scatter_filter ::
  "'c generator \<Rightarrow> ('l \<Rightarrow> real list) \<Rightarrow> (volume \<Rightarrow> volume) \<Rightarrow> bool \<Rightarrow> 'l \<Rightarrow> py_error + volume" where
  "scatter_filter g decode_het filterVol flt x =
     (case add_rows (g_values g) (decode_het x) of
        Inl e \<Rightarrow> Inl e
      | Inr vs \<Rightarrow>
          (case index_assign (g_xsize g) (zeros3 (g_xsize g)) (g_indices g) vs of
             Inl e \<Rightarrow> Inl e
           | Inr vol \<Rightarrow> Inr (if flt then filterVol vol else vol)))"

text \<open>
  then the thresholding around the (commented-out) deconvolvers:
  \<^verbatim>\<open>
    if not only_pos:
        neg_part = volume_grids[idx] * (volume_grids[idx] < 0.0)
    volume_grids[idx] = volume_grids[idx] * (volume_grids[idx] >= 0.0)
    if not only_pos:
        volume_grids[idx] += neg_part
  \<close>
  A numpy boolean multiplies as 1 or 0.
\<close>

definition threshold_volume :: "bool \<Rightarrow> volume \<Rightarrow> volume" where
  "threshold_volume only_pos vol =
     (let neg_part = vmap2 (*) vol (vmap (\<lambda>v. of_bool (v < 0)) vol);
          pos_part = vmap2 (*) vol (vmap (\<lambda>v. of_bool (v \<ge> 0)) vol)
      in if \<not> only_pos then vmap2 (+) pos_part neg_part else pos_part)"

definition decoder_eval_volume_het ::
  "'c generator \<Rightarrow> ('l \<Rightarrow> real list) \<Rightarrow> (volume \<Rightarrow> volume) \<Rightarrow> 'l list \<Rightarrow> bool \<Rightarrow> bool
     \<Rightarrow> py_error + volume list" where
  "decoder_eval_volume_het g decode_het filterVol x_het flt only_pos =
     for_each (\<lambda>x. case scatter_filter g decode_het filterVol flt x of
                     Inl e \<Rightarrow> Inl e
                   | Inr vol \<Rightarrow> Inr (threshold_volume only_pos vol)) x_het"

text \<open>
  \<^verbatim>\<open>het_siren.AutoEncoder.eval_volume_het\<close>. The generator is passed in and returned,
  since the method assigns to \<^verbatim>\<open>generator.coords\<close>. \<^verbatim>\<open>getAllCoordsMask\<close> is the
  generator's method (a parameter: it returns a list of grids and assigns nothing);
  \<open>stored\<close> is the content of \<^verbatim>\<open>volume.mrc\<close> beside the metadata file when the file
  exists. The loop:
  \<^verbatim>\<open>
    for coords in new_coords:
        self.decoder.generator.coords = coords
        volume += self.decoder.eval_volume_het(x_het, filter=filter, only_pos=only_pos)
  \<close>
\<close>

fun eval_coords_loop ::
  "('c generator \<Rightarrow> py_error + volume list) \<Rightarrow> 'c generator \<Rightarrow> 'c list \<Rightarrow> volume list
     \<Rightarrow> py_error + ('c generator \<times> volume list)" where
  "eval_coords_loop dec g [] vols = Inr (g, vols)"
| "eval_coords_loop dec g (c # cs) vols =
     (let g' = g\<lparr>g_coords := c\<rparr>
      in case dec g' of
           Inl e \<Rightarrow> Inl e
         | Inr vs \<Rightarrow> eval_coords_loop dec g' cs (map2 (vmap2 (+)) vols vs))"

definition eval_volume_het ::
  "('c generator \<Rightarrow> 'c list) \<Rightarrow> ('l \<Rightarrow> real list) \<Rightarrow> (volume \<Rightarrow> volume) \<Rightarrow> volume option
     \<Rightarrow> 'c generator \<Rightarrow> 'l list \<Rightarrow> bool \<Rightarrow> bool \<Rightarrow> bool \<Rightarrow> bool
     \<Rightarrow> py_error + ('c generator \<times> volume list)" where
  "eval_volume_het getAllCoordsMask decode_het filterVol stored g x_het allCoords flt only_pos
       add_to_original =
     (let batch_size = length x_het;
          swapped = (allCoords \<and> g_step g > 1);
          new_coords = (if swapped then getAllCoordsMask g else [g_coords g]);
          prev_coords = g_coords g;
          original_volume =
            (if add_to_original then map_option (replicate batch_size) stored else None);
          vols = replicate batch_size (zeros3 (g_xsize g))
      in case eval_coords_loop
                (\<lambda>g'. decoder_eval_volume_het g' decode_het filterVol x_het flt only_pos)
                g new_coords vols of
           Inl e \<Rightarrow> Inl e
         | Inr (g', vols') \<Rightarrow>
             Inr (if swapped then g'\<lparr>g_coords := prev_coords\<rparr> else g', vols'))"

section \<open>The HetSIREN prediction step\<close>

text \<open>
  The generator of the training and prediction steps: the record above, extended by
  the per-particle metadata arrays that the steps gather from and by the batch-scoped
  attributes they assign. Images and other tensors the model does not look into have
  the open type \<open>'t\<close>.
\<close>

record ('c, 't) batch_generator = "'c generator" +
  g_angle_rot :: "real list"
  g_angle_tilt :: "real list"
  g_angle_psi :: "real list"
  g_shift_x :: "real list"
  g_shift_y :: "real list"
  g_defocusU :: "real list"
  g_defocusV :: "real list"
  g_defocusAngle :: "real list"
  g_cs :: "real list"
  g_kv :: real
  g_sr :: real
  g_pad_factor :: nat
  g_applyCTF :: int
  g_indexes :: "int list"
  g_current_images :: 't
  g_rot_batch :: "real list"
  g_tilt_batch :: "real list"
  g_psi_batch :: "real list"
  g_shifts_batch :: "real list \<times> real list"
  g_ctf :: 't
  g_CTF :: "string option"

text \<open>\<^verbatim>\<open>tf.gather(params, indices, axis=0)\<close>; an index outside the array raises (on the
  CPU kernel).\<close>

definition tf_gather :: "'a list \<Rightarrow> int list \<Rightarrow> py_error + 'a list" where
  "tf_gather params idx =
     (if \<forall>i \<in> set idx. 0 \<le> i \<and> i < int (length params)
      then Inr (map (\<lambda>i. params ! nat i) idx)
      else Inl (InvalidArgumentError ''indices out of range''))"

definition bind_err :: "py_error + 'a \<Rightarrow> ('a \<Rightarrow> py_error + 'b) \<Rightarrow> py_error + 'b" where
  "bind_err m f = (case m of Inl e \<Rightarrow> Inl e | Inr x \<Rightarrow> f x)"

text \<open>
  A batch as the data generator yields it. In mode \<^verbatim>\<open>"spa"\<close> it is
  \<^verbatim>\<open>(images, indexes)\<close>; in mode \<^verbatim>\<open>"tomo"\<close> it is
  \<^verbatim>\<open>([images, subtomo_pe], [indexes, ...])\<close>. The constructor stands for
  \<^verbatim>\<open>self.mode\<close>: the \<open>Encoder\<close> can only be built for one of the two modes. The
  encoder's input has the same two layouts. Keras hands a step its batch with every
  list turned into a tuple, so in mode tomo \<^verbatim>\<open>data[0]\<close> is the tuple
  \<^verbatim>\<open>(images, subtomo_pe)\<close>.
\<close>

datatype 't batch = SpaBatch 't "int list" | TomoBatch 't 't "int list"

datatype 't net_input = SpaInput 't | TomoInput 't 't

fun batch_images :: "'t batch \<Rightarrow> 't" where
  "batch_images (SpaBatch images indexes) = images"
| "batch_images (TomoBatch images subtomo_pe indexes) = images"

fun batch_indexes :: "'t batch \<Rightarrow> int list" where
  "batch_indexes (SpaBatch images indexes) = indexes"
| "batch_indexes (TomoBatch images subtomo_pe indexes) = indexes"

fun batch_inputs :: "'t batch \<Rightarrow> 't net_input" where
  "batch_inputs (SpaBatch images indexes) = SpaInput images"
| "batch_inputs (TomoBatch images subtomo_pe indexes) = TomoInput images subtomo_pe"

text \<open>
  Lines 983 to 986, under the Wiener filter:
  \<^verbatim>\<open>
    if self.mode == "spa":
        inputs = images
    elif self.mode == "tomo":
        inputs[0] = images
  \<close>
  In mode spa the name is bound anew. In mode tomo the statement assigns to an item of
  \<^verbatim>\<open>data[0]\<close>, which is a tuple: it raises TypeError.
\<close>

fun set_images :: "'t net_input \<Rightarrow> 't \<Rightarrow> py_error + 't net_input" where
  "set_images (SpaInput old) images = Inr (SpaInput images)"
| "set_images (TomoInput old subtomo_pe) images =
     Inl (TypeError ''tuple object does not support item assignment'')"

text \<open>
  The attributes of the auto-encoder that the step reads: \<^verbatim>\<open>self.CTF\<close>, and
  \<^verbatim>\<open>self.predict_mode\<close> and \<^verbatim>\<open>self.applyCTF\<close> as \<^verbatim>\<open>predict\<close> set them. The two
  networks are functions; the decoder's layers call the generator, so it takes the
  generator as it stands at the call.
\<close>

record ('c, 't, 'e, 'd) autoencoder =
  ae_CTF :: "string option"
  ae_predict_mode :: string
  ae_applyCTF :: int
  ae_encoder :: "'t net_input \<Rightarrow> 'e"
  ae_decoder :: "('c, 't) batch_generator \<Rightarrow> 'e \<Rightarrow> 'd"

datatype ('e, 'd) predicted = Encoded 'e | Decoded 'd

text \<open>
  \<^verbatim>\<open>het_siren.AutoEncoder.predict_step\<close>, lines 944 to 992: everything before the
  dispatch on \<^verbatim>\<open>predict_mode\<close>. It returns the generator with the batch attributes
  assigned and the inputs of the encoder. \<^verbatim>\<open>computeCTF\<close> (of the toolkit's utilities),
  the generator's \<^verbatim>\<open>wiener2DFilter\<close> and \<^verbatim>\<open>tf.shape(images)[0]\<close> are parameters.
\<close>

definition prepare_prediction ::
  "('c, 't, 'e, 'd) autoencoder
   \<Rightarrow> (real list \<Rightarrow> real list \<Rightarrow> real list \<Rightarrow> real list \<Rightarrow> real \<Rightarrow> real \<Rightarrow> nat \<Rightarrow> nat \<times> nat
         \<Rightarrow> nat \<Rightarrow> int \<Rightarrow> 't)
   \<Rightarrow> (('c, 't) batch_generator \<Rightarrow> 't \<Rightarrow> 't) \<Rightarrow> ('t \<Rightarrow> nat)
   \<Rightarrow> ('c, 't) batch_generator \<Rightarrow> 't batch
   \<Rightarrow> py_error + (('c, 't) batch_generator \<times> 't net_input)" where
  "prepare_prediction ae computeCTF wiener2DFilter shape0 g data =
     (let inputs = batch_inputs data;
          indexes = batch_indexes data;
          images = batch_images data;
          g1 = g\<lparr>g_indexes := indexes, g_current_images := images\<rparr>;
          batch_size_scope = shape0 images
      in bind_err (tf_gather (g_angle_rot g1) indexes) (\<lambda>rot_batch.
         bind_err (tf_gather (g_angle_tilt g1) indexes) (\<lambda>tilt_batch.
         bind_err (tf_gather (g_angle_psi g1) indexes) (\<lambda>psi_batch.
         bind_err (tf_gather (g_shift_x g1) indexes) (\<lambda>shift_x_batch.
         bind_err (tf_gather (g_shift_y g1) indexes) (\<lambda>shift_y_batch.
         bind_err (tf_gather (g_defocusU g1) indexes) (\<lambda>defocusU_batch.
         bind_err (tf_gather (g_defocusV g1) indexes) (\<lambda>defocusV_batch.
         bind_err (tf_gather (g_defocusAngle g1) indexes) (\<lambda>defocusAngle_batch.
         bind_err (tf_gather (g_cs g1) indexes) (\<lambda>cs_batch.
           let g2 = g1\<lparr>g_rot_batch := rot_batch, g_tilt_batch := tilt_batch,
                       g_psi_batch := psi_batch,
                       g_shifts_batch := (shift_x_batch, shift_y_batch)\<rparr>;
               ctf = computeCTF defocusU_batch defocusV_batch defocusAngle_batch cs_batch
                       (g_kv g2) (g_sr g2) (g_pad_factor g2)
                       (g_xsize g2, g_xsize g2 div 2 + 1) batch_size_scope (g_applyCTF g2);
               g3 = g2\<lparr>g_ctf := ctf\<rparr>
           in bind_err (if ae_CTF ae = Some ''wiener''
                        then set_images inputs (wiener2DFilter g3 images) else Inr inputs)
                (\<lambda>inputs'.
                   let g4 = g3\<lparr>g_CTF := (if ae_applyCTF ae = 1 then Some ''apply'' else None)\<rparr>
                   in Inr (g4, inputs'))))))))))))"

text \<open>
  The step itself: the preparation, then lines 994 to 999,
  \<^verbatim>\<open>
    if self.predict_mode == "het":
        return self.encoder(inputs)
    elif self.predict_mode == "particles":
        return self.decoder(self.encoder(inputs))
    else:
        raise ValueError("Prediction mode not understood!")
  \<close>
\<close>

definition predict_step ::
  "('c, 't, 'e, 'd) autoencoder
   \<Rightarrow> (real list \<Rightarrow> real list \<Rightarrow> real list \<Rightarrow> real list \<Rightarrow> real \<Rightarrow> real \<Rightarrow> nat \<Rightarrow> nat \<times> nat
         \<Rightarrow> nat \<Rightarrow> int \<Rightarrow> 't)
   \<Rightarrow> (('c, 't) batch_generator \<Rightarrow> 't \<Rightarrow> 't) \<Rightarrow> ('t \<Rightarrow> nat)
   \<Rightarrow> ('c, 't) batch_generator \<Rightarrow> 't batch
   \<Rightarrow> py_error + (('e, 'd) predicted \<times> ('c, 't) batch_generator)" where
  "predict_step ae computeCTF wiener2DFilter shape0 g data =
     bind_err (prepare_prediction ae computeCTF wiener2DFilter shape0 g data) (\<lambda>(g', inputs).
       if ae_predict_mode ae = ''het'' then Inr (Encoded (ae_encoder ae inputs), g')
       else if ae_predict_mode ae = ''particles''
         then Inr (Decoded (ae_decoder ae g' (ae_encoder ae inputs)), g')
       else Inl (ValueError ''Prediction mode not understood!''))"

text \<open>A concrete generator of two particles and a concrete auto-encoder over tensors that
  are plain numbers, for running the step.\<close>

definition example_generator :: "(nat, nat) batch_generator" where
  "example_generator =
     \<lparr>g_coords = 0, g_indices = [], g_values = [], g_xsize = 4, g_step = 1,
      g_angle_rot = [10, 20], g_angle_tilt = [11, 21], g_angle_psi = [12, 22],
      g_shift_x = [1, 2], g_shift_y = [3, 4], g_defocusU = [5, 6], g_defocusV = [7, 8],
      g_defocusAngle = [0, 0], g_cs = [2, 2], g_kv = 300, g_sr = 1, g_pad_factor = 2,
      g_applyCTF = 1, g_indexes = [], g_current_images = 0, g_rot_batch = [],
      g_tilt_batch = [], g_psi_batch = [], g_shifts_batch = ([], []), g_ctf = 0,
      g_CTF = None\<rparr>"

definition example_autoencoder :: "string \<Rightarrow> (nat, nat, nat, nat) autoencoder" where
  "example_autoencoder m =
     \<lparr>ae_CTF = Some ''wiener'', ae_predict_mode = m, ae_applyCTF = 0,
      ae_encoder = (\<lambda>i. case i of SpaInput t \<Rightarrow> t + 1 | TomoInput t p \<Rightarrow> t + p),
      ae_decoder = (\<lambda>g e. e * 2)\<rparr>"

section \<open>ReconSIREN: scatter projection\<close>

type_synonym image = "real list list"

definition zeros2 :: "nat \<Rightarrow> image" where
  "zeros2 n = replicate n (replicate n 0)"

text \<open>\<^verbatim>\<open>tf.round\<close> rounds to the nearest integer, and a value halfway between two integers
  to the even one. \<^verbatim>\<open>tf.cast(x, tf.int32)\<close> truncates towards zero (the range of int32 is
  not modelled: pixel positions are far inside it).\<close>

definition tf_round :: "real \<Rightarrow> real" where
  "tf_round x =
     (let f = \<lfloor>x\<rfloor>; d = x - of_int f
      in of_int (if d < 1/2 then f else if 1/2 < d then f + 1 else if even f then f else f + 1))"

definition cast_int32 :: "real \<Rightarrow> int" where
  "cast_int32 x = (if 0 \<le> x then \<lfloor>x\<rfloor> else \<lceil>x\<rceil>)"

text \<open>
  \<^verbatim>\<open>tf.tensor_scatter_nd_add(image, indices, updates)\<close> on one image: every update is
  added at its index, so updates at one pixel accumulate. There must be one update per
  index, and an index outside the image raises (on the CPU kernel; the GPU kernel
  skips it).
\<close>

definition scatter_add_pixel :: "image \<Rightarrow> (int \<times> int) \<times> real \<Rightarrow> py_error + image" where
  "scatter_add_pixel img p =
     (case p of ((i, j), v) \<Rightarrow>
        if 0 \<le> i \<and> i < int (length img) \<and> 0 \<le> j \<and> j < int (length (img ! nat i))
        then Inr (img[nat i := (img ! nat i)[nat j := img ! nat i ! nat j + v]])
        else Inl (InvalidArgumentError ''indices are out of bounds''))"

fun scatter_add_pixels :: "image \<Rightarrow> ((int \<times> int) \<times> real) list \<Rightarrow> py_error + image" where
  "scatter_add_pixels img [] = Inr img"
| "scatter_add_pixels img (p # ps) =
     (case scatter_add_pixel img p of Inl e \<Rightarrow> Inl e | Inr img' \<Rightarrow> scatter_add_pixels img' ps)"

definition tensor_scatter_nd_add :: "image \<Rightarrow> (int \<times> int) list \<Rightarrow> real list \<Rightarrow> py_error + image" where
  "tensor_scatter_nd_add img idx updates =
     (if length idx = length updates then scatter_add_pixels img (zip idx updates)
      else Inl (InvalidArgumentError ''shape mismatch between indices and updates''))"

text \<open>
  \<^verbatim>\<open>reconsiren.AutoEncoder.decode_images_with_loss\<close>, lines 555 to 570, and the same
  lines 794 to 809 of \<^verbatim>\<open>predict_step\<close>, for one element of the batch. \<open>ro\<close> holds the
  projected position (row, column) of every point, after the rotation, the shift and
  the permutation; \<open>vals\<close> holds the points' values (base values plus delta).
  \<^verbatim>\<open>
    imgs = tf.zeros((B, self.generator.xsize, self.generator.xsize), dtype=tf.float32)
    bpos_round = tf.round(ro)
    bpos_flow = tf.cast(bpos_round, tf.int32)
    num = tf.reduce_sum(((bpos_round - ro) ** 2.), axis=-1)
    weight = tf.exp(-num / (2. * 1. ** 2.))
    values = values * weight
    fn = lambda inp: tf.tensor_scatter_nd_add(inp[0], inp[1], inp[2])
    imgs = tf.map_fn(fn, [imgs, bpos_flow, values], fn_output_signature=tf.float32)
  \<close>
\<close>

definition scatter_project :: "nat \<Rightarrow> (real \<times> real) list \<Rightarrow> real list \<Rightarrow> py_error + image" where
  "scatter_project xsize ro vals =
     (let imgs = zeros2 xsize;
          bpos_round = map (\<lambda>(a, b). (tf_round a, tf_round b)) ro;
          bpos_flow = map (\<lambda>(a, b). (cast_int32 a, cast_int32 b)) bpos_round;
          num = map2 (\<lambda>(ra, rb) (a, b). (ra - a) ^ 2 + (rb - b) ^ 2) bpos_round ro;
          weight = map (\<lambda>n. exp (- n / (2 * 1 ^ 2))) num
      in if length vals = length weight
         then tensor_scatter_nd_add imgs bpos_flow (map2 (*) vals weight)
         else Inl (InvalidArgumentError ''Incompatible shapes''))"

section \<open>ReconSIREN: selection among the candidate heads\<close>

text \<open>
  What one head yields for a batch of \<open>B\<close> images, as the loop body of
  \<^verbatim>\<open>reconsiren.AutoEncoder.predict_step\<close> computes it before the selection: the rotation
  matrices \<open>r\<close>, the \<open>shifts\<close>, the predicted images \<^verbatim>\<open>imgs[..., 0]\<close> and the losses
  \<^verbatim>\<open>loss_rec = self.cost(images, imgs)\<close>, each with one entry per batch element. The
  networks and the cost function that produce them are outside the selection.
\<close>

record candidate =
  c_r :: "real list list list"
  c_shifts :: "real list list"
  c_imgs :: "image list"
  c_loss_rec :: "real list"

record selection =
  prev_loss_rec :: "real list"
  keep_r :: "real list list list"
  keep_shifts :: "real list list"
  keep_imgs :: "image list"

text \<open>\<^verbatim>\<open>tf.where(mask, x, y)\<close> with the mask reshaped to the batch axis: per batch element,
  the whole entry of \<open>x\<close> or of \<open>y\<close>.\<close>

definition tf_where :: "bool list \<Rightarrow> 'a list \<Rightarrow> 'a list \<Rightarrow> 'a list" where
  "tf_where msk x y = map (\<lambda>(m, a, b). if m then a else b) (zip msk (zip x y))"

text \<open>
  Lines 825 to 837:
  \<^verbatim>\<open>
    mask = tf.less_equal(loss_rec, prev_loss_rec)
    prev_loss_rec = tf.where(mask, loss_rec, prev_loss_rec)
    keep_r = tf.where(mask_r, r, keep_r)
    keep_shifts = tf.where(mask_shifts, shifts, keep_shifts)
    keep_imgs = tf.where(mask_imgs, imgs[..., 0], keep_imgs)
  \<close>
\<close>

definition select_candidate :: "selection \<Rightarrow> candidate \<Rightarrow> selection" where
  "select_candidate s c =
     (let msk = map2 (\<le>) (c_loss_rec c) (prev_loss_rec s)
      in \<lparr>prev_loss_rec = tf_where msk (c_loss_rec c) (prev_loss_rec s),
          keep_r = tf_where msk (c_r c) (keep_r s),
          keep_shifts = tf_where msk (c_shifts c) (keep_shifts s),
          keep_imgs = tf_where msk (c_imgs c) (keep_imgs s)\<rparr>)"

text \<open>Lines 769 to 772: the outputs before the first head.\<close>

definition initial_selection :: "nat \<Rightarrow> nat \<Rightarrow> selection" where
  "initial_selection batch_size_scope xsize =
     \<lparr>prev_loss_rec = replicate batch_size_scope 10000,
      keep_r = replicate batch_size_scope (replicate 3 (replicate 3 0)),
      keep_shifts = replicate batch_size_scope (replicate 2 0),
      keep_imgs = replicate batch_size_scope (zeros2 xsize)\<rparr>"

text \<open>The loop over the heads of \<^verbatim>\<open>predict_step\<close> and its return value
  \<^verbatim>\<open>keep_r, keep_shifts, keep_imgs\<close>; \<open>cands\<close> lists the heads' outputs in the order of
  the loop.\<close>

definition winner_takes_all ::
  "nat \<Rightarrow> nat \<Rightarrow> candidate list \<Rightarrow> real list list list \<times> real list list \<times> image list" where
  "winner_takes_all batch_size_scope xsize cands =
     (let s = foldl select_candidate (initial_selection batch_size_scope xsize) cands
      in (keep_r s, keep_shifts s, keep_imgs s))"

text \<open>
  \<^verbatim>\<open>decode_images_with_loss\<close> keeps only the loss, lines 513, 594 and 607:
  \<^verbatim>\<open>
    prev_loss_rec = 10000. * tf.ones(B)
    for idr in range(self.n_candidates):
        ...
        loss_rec = tf.reduce_min(tf.stack([loss_rec, prev_loss_rec], axis=-1), axis=-1)
        ...
        prev_loss_rec = loss_rec
  \<close>
  \<open>losses\<close> lists, per head, the loss of every batch element as the symmetry loop
  leaves it. After the loop the regularisation terms are added to \<^verbatim>\<open>loss_rec\<close>.
\<close>

definition best_loss_rec :: "nat \<Rightarrow> real list list \<Rightarrow> real list" where
  "best_loss_rec B losses =
     foldl (\<lambda>prev_loss_rec loss_rec. map2 min loss_rec prev_loss_rec) (replicate B 10000) losses"

text \<open>
  Shapes: a head's outputs and the running selection for a batch of \<open>B\<close> elements have
  \<open>B\<close> entries each (TensorFlow rejects any other shapes). \<open>produced c b\<close> is what
  head output \<open>c\<close> holds for batch element \<open>b\<close>, \<open>kept s b\<close> what the selection holds.
\<close>

definition batch_of :: "nat \<Rightarrow> candidate \<Rightarrow> bool" where
  "batch_of B c \<longleftrightarrow>
     length (c_loss_rec c) = B \<and> length (c_r c) = B \<and> length (c_shifts c) = B
     \<and> length (c_imgs c) = B"

definition selection_of :: "nat \<Rightarrow> selection \<Rightarrow> bool" where
  "selection_of B s \<longleftrightarrow>
     length (prev_loss_rec s) = B \<and> length (keep_r s) = B \<and> length (keep_shifts s) = B
     \<and> length (keep_imgs s) = B"

definition kept :: "selection \<Rightarrow> nat \<Rightarrow> real list list \<times> real list \<times> image" where
  "kept s b = (keep_r s ! b, keep_shifts s ! b, keep_imgs s ! b)"

definition produced :: "candidate \<Rightarrow> nat \<Rightarrow> real list list \<times> real list \<times> image" where
  "produced c b = (c_r c ! b, c_shifts c ! b, c_imgs c ! b)"

text \<open>\<open>winner_at cands b s k\<close>: for batch element \<open>b\<close> the selection \<open>s\<close> holds the loss and the
  outputs of head \<open>k\<close>, and every later head's loss at \<open>b\<close> is strictly larger.\<close>

definition winner_at :: "candidate list \<Rightarrow> nat \<Rightarrow> selection \<Rightarrow> nat \<Rightarrow> bool" where
  "winner_at cands b s k \<longleftrightarrow>
     k < length cands
     \<and> prev_loss_rec s ! b = c_loss_rec (cands ! k) ! b
     \<and> kept s b = produced (cands ! k) b
     \<and> (\<forall>j < length cands. k < j \<longrightarrow> c_loss_rec (cands ! k) ! b < c_loss_rec (cands ! j) ! b)"

section \<open>The blur filter bank\<close>

text \<open>
  \<^verbatim>\<open>np.linspace(start, stop, num)\<close>: \<open>num\<close> evenly spaced samples from \<open>start\<close> to \<open>stop\<close>,
  both included; a single sample is \<open>start\<close>, and none is the empty array.
  \<^verbatim>\<open>np.diff\<close>: the differences of neighbours, one fewer than the entries.
\<close>

definition np_linspace :: "real \<Rightarrow> real \<Rightarrow> nat \<Rightarrow> real list" where
  "np_linspace start stop num =
     (if num = 1 then [start]
      else map (\<lambda>i. start + real i * ((stop - start) / real (num - 1))) [0..<num])"

definition np_diff :: "real list \<Rightarrow> real list" where
  "np_diff xs = map2 (\<lambda>b a. b - a) (tl xs) xs"

text \<open>\<^verbatim>\<open>np.sqrt\<close> is NaN on a negative number.\<close>

fun tf_sqrt :: "tfloat \<Rightarrow> tfloat" where
  "tf_sqrt (Fin x) = (if x < 0 then NaN else Fin (sqrt x))"
| "tf_sqrt PInf = PInf"
| "tf_sqrt a = NaN"

text \<open>
  \<^verbatim>\<open>reconsiren.gaussian_kernel\<close>:
  \<^verbatim>\<open>
    interval = (2 * std + 1.) / size
    x = np.linspace(-std - interval / 2., std + interval / 2., size)
    kern1d = np.diff(st.norm.cdf(x))
    kernel_raw = np.sqrt(np.outer(kern1d, kern1d))
    kernel = kernel_raw / kernel_raw.sum()
  \<close>
  \<^verbatim>\<open>st.norm.cdf\<close>, the distribution function of the standard normal law, is the
  parameter \<open>cdf\<close>; the argument \<^verbatim>\<open>size\<close> is written \<open>ksize\<close> (a negative size makes
  \<^verbatim>\<open>np.linspace\<close> raise and is excluded by the type).

  The first line divides by \<open>size\<close>. With \<open>size = 0\<close> the outcome depends on the kind of
  number \<open>std\<close> is: a Python float raises ZeroDivisionError; a numpy float64, which is
  what iterating over an array yields, gives an infinite (or NaN) \<open>interval\<close> without
  an exception, and \<^verbatim>\<open>np.linspace\<close> with no samples is empty whatever its ends are.
\<close>

datatype py_number = PyFloat real | NpFloat real

fun number_value :: "py_number \<Rightarrow> real" where
  "number_value (PyFloat x) = x"
| "number_value (NpFloat x) = x"

fun is_python_float :: "py_number \<Rightarrow> bool" where
  "is_python_float (PyFloat x) = True"
| "is_python_float (NpFloat x) = False"

text \<open>The five lines on a standard deviation \<open>std\<close> whose division does not raise. For
  \<open>ksize = 0\<close> the value of \<open>interval\<close> plays no part: \<open>x\<close> is empty.\<close>

definition gaussian_kernel_array :: "(real \<Rightarrow> real) \<Rightarrow> nat \<Rightarrow> real \<Rightarrow> tfloat list list" where
  "gaussian_kernel_array cdf ksize std =
     (let interval = (2 * std + 1) / real ksize;
          x = np_linspace (- std - interval / 2) (std + interval / 2) ksize;
          kern1d = np_diff (map cdf x);
          kernel_raw = map (\<lambda>a. map (\<lambda>b. tf_sqrt (Fin (a * b))) kern1d) kern1d;
          total = reduce_sum (concat kernel_raw)
      in map (map (\<lambda>e. tf_div e total)) kernel_raw)"

definition gaussian_kernel :: "(real \<Rightarrow> real) \<Rightarrow> nat \<Rightarrow> py_number \<Rightarrow> py_error + tfloat list list" where
  "gaussian_kernel cdf ksize std =
     (if ksize = 0 \<and> is_python_float std
      then Inl (ZeroDivisionError ''float division by zero'')
      else Inr (gaussian_kernel_array cdf ksize (number_value std)))"

text \<open>
  \<^verbatim>\<open>reconsiren.create_blur_filters\<close>:
  \<^verbatim>\<open>
    std_intervals = np.linspace(0.1, max_std, num_filters)
    filters = []
    for std in std_intervals:
        kernel = gaussian_kernel(filter_size, std)
        kernel = np.expand_dims(kernel, axis=-1)
        filters.append(kernel)
    filters = np.stack(filters, axis=-1)
  \<close>
  The loop passes numpy floats. \<^verbatim>\<open>np.stack\<close> raises ValueError on an empty list; the
  kernels it is given here all have one shape. The result lists the kernels in the
  order of the last axis of the stacked tensor.
\<close>

definition create_blur_filters ::
  "(real \<Rightarrow> real) \<Rightarrow> nat \<Rightarrow> real \<Rightarrow> nat \<Rightarrow> py_error + tfloat list list list" where
  "create_blur_filters cdf num_filters max_std filter_size =
     (let std_intervals = np_linspace (1/10) max_std num_filters
      in bind_err (for_each (\<lambda>std. gaussian_kernel cdf filter_size (NpFloat std)) std_intervals)
           (\<lambda>filters.
              if filters = [] then Inl (ValueError ''need at least one array to stack'')
              else Inr filters))"

text \<open>\<^verbatim>\<open>kernel.sum()\<close>, the sum of all entries of a kernel.\<close>

definition kernel_sum :: "tfloat list list \<Rightarrow> tfloat" where
  "kernel_sum kern = reduce_sum (concat kern)"

text \<open>A concrete strictly increasing distribution function to run the bank on (the
  normal one is not a closed-form term): that of the standard Cauchy law.\<close>

definition cauchy_cdf :: "real \<Rightarrow> real" where
  "cauchy_cdf x = arctan x / pi + 1/2"

section \<open>The normalisation of the Fourier resize\<close>

text \<open>
  \<^verbatim>\<open>resizeImageFourier\<close> (in both network files) scales the resized images by
  \<^verbatim>\<open>norm * norm\<close>, where
  \<^verbatim>\<open>
    pad_size = pad_factor * xsize
    pad_out_size = pad_factor * out_size
    norm = tf.cast(pad_out_size, dtype=tf.float32) / tf.cast(pad_size, dtype=tf.float32)
  \<close>
  The transforms themselves, \<^verbatim>\<open>full_fft_pad\<close> and \<^verbatim>\<open>full_ifft_pad\<close>, belong to the
  toolkit's utilities and are not modelled.
\<close>

definition resize_norm :: "nat \<Rightarrow> nat \<Rightarrow> nat \<Rightarrow> tfloat" where
  "resize_norm pad_factor xsize out_size =
     (let pad_size = pad_factor * xsize;
          pad_out_size = pad_factor * out_size
      in tf_div (Fin (real pad_out_size)) (Fin (real pad_size)))"

definition resize_scale :: "nat \<Rightarrow> nat \<Rightarrow> nat \<Rightarrow> tfloat" where
  "resize_scale pad_factor xsize out_size =
     tf_mul (resize_norm pad_factor xsize out_size) (resize_norm pad_factor xsize out_size)"

section \<open>Properties\<close>

subsection \<open>Arithmetic on finite entries\<close>

lemma foldl_tf_add_Fin: "foldl tf_add (Fin a) (map Fin xs) = Fin (a + sum_list xs)"
  by (induction xs arbitrary: a) (simp_all add: algebra_simps)

lemma reduce_sum_Fin: "reduce_sum (map Fin xs) = Fin (sum_list xs)"
  by (simp add: reduce_sum_def foldl_tf_add_Fin)

lemma reduce_mean_empty: "reduce_mean [] = NaN"
  by (simp add: reduce_mean_def reduce_sum_def)

lemma boolean_mask_none:
  "\<forall>r \<in> set msk. \<forall>m \<in> set r. \<not> m \<Longrightarrow> boolean_mask t msk = []"
proof -
  assume none: "\<forall>r \<in> set msk. \<forall>m \<in> set r. \<not> m"
  have "\<not> snd p" if "p \<in> set (zip (concat t) (concat msk))" for p
  proof -
    have "snd p \<in> set (concat msk)"
      using that set_zip_rightD [of "fst p" "snd p" "concat t" "concat msk"]
      by (simp del: set_concat)
    with none show ?thesis by auto
  qed
  then show ?thesis
    by (simp add: boolean_mask_def filter_empty_conv)
qed

subsection \<open>C2: the penalty on a non-negative density\<close>

text \<open>
  Claim C2 says the penalty is exactly 0 when every entry of the corrected density is
  non-negative. The code does not return 0 there: no entry passes the mask, so
  \<^verbatim>\<open>delta_neg\<close> is empty, its mean is \<open>0 / 0\<close>, and the penalty is NaN. The failing input
  is a batch of one element with the two densities \<open>1/2\<close> and \<open>1\<close>, and
  \<^verbatim>\<open>l1_lambda = 1/2\<close> (the constructor's default).
\<close>

theorem neg_loss_het_nonneg_is_nan:
  "neg_loss_het (1/2) [[Fin (1/2), Fin 1]] = NaN
   \<and> neg_loss_het (1/2) [[Fin (1/2), Fin 1]] \<noteq> Fin 0"
  by (simp add: neg_loss_het_def boolean_mask_def reduce_mean_empty)

text \<open>The same on every non-negative density, whatever the weight.\<close>

lemma neg_loss_het_all_nonneg:
  assumes "\<forall>row \<in> set delta. \<forall>x \<in> set row. 0 \<le> x"
  shows "neg_loss_het l (map (map Fin) delta) = NaN"
proof -
  have "boolean_mask (map (map Fin) delta) (map (map tf_less_zero) (map (map Fin) delta)) = []"
    using assms by (intro boolean_mask_none) (auto simp: not_less)
  then show ?thesis
    by (simp add: neg_loss_het_def Let_def reduce_mean_empty)
qed

text \<open>In \<open>test_step\<close> the penalty is the number 0 when \<open>only_pos\<close> is off, and the same
  NaN when it is on.\<close>

lemma neg_loss_het_test_cases:
  "neg_loss_het_test False l delta_het = Fin 0"
  "\<forall>row \<in> set delta. \<forall>x \<in> set row. 0 \<le> x \<Longrightarrow>
     neg_loss_het_test True l (map (map Fin) delta) = NaN"
  by (simp_all add: neg_loss_het_test_def neg_loss_het_all_nonneg)

subsection \<open>C4: the reconstruction mask is binary\<close>

lemma divide_no_nan_self: "divide_no_nan (Fin x) (Fin x) = Fin (if x = 0 then 0 else 1)"
  by (simp add: divide_no_nan_def)

text \<open>
  Claim C4: the quotient of the mask magnitude by itself is binary. On a mask of finite
  entries \<open>ms\<close> (the resized mask of the generator), every entry of the result is the
  number 1 where the entry of \<open>ms\<close> is nonzero and the number 0 where it is zero; in
  particular no entry is NaN or infinite, although the division is \<open>0 / 0\<close> there.
\<close>

theorem reconstruction_mask_binary:
  "reconstruction_mask (map Fin ms) = map (\<lambda>m. Fin (if m = 0 then 0 else 1)) ms"
  by (induction ms) (simp_all add: reconstruction_mask_def Let_def divide_no_nan_self)

subsection \<open>C9: the guarded inverse cosine\<close>

lemma clip_strictly_inside:
  fixes x :: real
  shows "- 1 < min (max x (- 1 + 1 / 10 ^ 7)) (1 - 1 / 10 ^ 7)"
    and "min (max x (- 1 + 1 / 10 ^ 7)) (1 - 1 / 10 ^ 7) < 1"
  by (simp_all add: min_def max_def)

lemma safe_acos_Fin:
  "safe_acos (Fin x) = Fin (arccos (min (max x (- 1 + 1 / 10 ^ 7)) (1 - 1 / 10 ^ 7)))"
  using clip_strictly_inside [of x] by (simp add: safe_acos_def less_imp_le)

lemma safe_acos_range:
  "\<exists>a. safe_acos (Fin x) = Fin a \<and> 0 < a \<and> a < pi"
  using clip_strictly_inside [of x] arccos_lt_bounded safe_acos_Fin by blast

text \<open>
  Claim C9: for every real \<open>x\<close>, also below \<open>-1\<close> and above 1, \<open>safe_acos x\<close> is the
  inverse cosine of \<open>x\<close> clipped to \<open>[-1 + 1e-7, 1 - 1e-7]\<close>, a finite number (strictly
  between 0 and \<open>\<pi>\<close>); and every angular distance that \<open>uniform_distribution_loss\<close>
  computes from its matrix of inner products is such a number, never NaN.
\<close>

theorem safe_acos_finite:
  "safe_acos (Fin x) = Fin (arccos (min (max x (- 1 + 1 / 10 ^ 7)) (1 - 1 / 10 ^ 7)))
   \<and> 0 < arccos (min (max x (- 1 + 1 / 10 ^ 7)) (1 - 1 / 10 ^ 7))
   \<and> arccos (min (max x (- 1 + 1 / 10 ^ 7)) (1 - 1 / 10 ^ 7)) < pi
   \<and> (\<forall>i < length vectors. \<forall>j < length vectors.
        \<exists>a. angular_distances vectors ! i ! j = Fin a \<and> 0 < a \<and> a < pi)"
proof -
  have "\<exists>a. angular_distances vectors ! i ! j = Fin a \<and> 0 < a \<and> a < pi"
    if "i < length vectors" "j < length vectors" for i j
    using that by (simp add: angular_distances_def cosine_similarity_def safe_acos_range)
  then show ?thesis
    using clip_strictly_inside [of x] arccos_lt_bounded safe_acos_Fin by blast
qed

text \<open>At the overshoot \<open>x = 3/2\<close>, where the unguarded \<open>tf_acos\<close> is NaN, and for two
  batch vectors whose inner product overshoots (the rows are not unit vectors).\<close>

theorem safe_acos_finite_witness:
  "safe_acos (Fin (3/2)) = Fin (arccos (1 - 1 / 10 ^ 7))
   \<and> tf_acos (Fin (3/2)) = NaN
   \<and> (\<exists>a. angular_distances [[2, 0, 0], [1, 0, 0]] ! 0 ! 1 = Fin a \<and> 0 < a \<and> a < pi)"
  using safe_acos_finite [of "3/2" "[[2, 0, 0], [1, 0, 0]]"] by simp

subsection \<open>C10: no net thresholding unless \<open>only_pos\<close>\<close>

lemma map2_of_maps: "map2 f (map g xs) (map h xs) = map (\<lambda>x. f (g x) (h x)) xs"
  by (induction xs) simp_all

lemma vmap2_vmap_vmap: "vmap2 f (vmap g vol) (vmap h vol) = vmap (\<lambda>v. f (g v) (h v)) vol"
proof -
  have row: "map2 f (map g r) (map h r) = map (\<lambda>v. f (g v) (h v)) r" for r
    by (rule map2_of_maps)
  have plane: "map2 (map2 f) (map (map g) p) (map (map h) p) = map (map (\<lambda>v. f (g v) (h v))) p"
    for p
    using map2_of_maps [of "map2 f" "map g" p "map h"] by (simp add: row)
  show ?thesis
    unfolding vmap2_def vmap_def
    using map2_of_maps [of "map2 (map2 f)" "map (map g)" vol "map (map h)"]
    by (simp add: plane)
qed

lemma vmap_ident: "(\<And>v. f v = v) \<Longrightarrow> vmap f vol = vol"
  by (simp add: vmap_def map_idI)

lemma vmap2_vmap: "vmap2 f vol (vmap h vol) = vmap (\<lambda>v. f v (h v)) vol"
  using vmap2_vmap_vmap [of f "\<lambda>v. v" vol h] by (simp add: vmap_ident)

lemma threshold_volume_False: "threshold_volume False vol = vol"
proof -
  have "v * of_bool (0 \<le> v) + v * of_bool (v < 0) = v" for v :: real
    by simp
  then show ?thesis
    by (simp add: threshold_volume_def Let_def vmap2_vmap vmap2_vmap_vmap vmap_ident)
qed

lemma threshold_volume_True: "threshold_volume True vol = vmap (\<lambda>v. max v 0) vol"
proof -
  have "v * of_bool (0 \<le> v) = max v 0" for v :: real
    by (simp add: max_def)
  then show ?thesis
    by (simp add: threshold_volume_def Let_def vmap2_vmap)
qed

text \<open>
  Claim C10: with \<open>only_pos = False\<close> the negative part that the thresholding zeroes is
  added back unchanged, so \<open>Decoder.eval_volume_het\<close> returns exactly the volumes of the
  scattered base-plus-delta values, filtered when \<open>filter\<close> is set (and raises exactly
  where scattering raises); with \<open>only_pos = True\<close> it returns their positive parts,
  every negative voxel replaced by 0.
\<close>

theorem only_pos_False_no_thresholding:
  "decoder_eval_volume_het g decode_het filterVol x_het flt False
     = for_each (scatter_filter g decode_het filterVol flt) x_het
   \<and> decoder_eval_volume_het g decode_het filterVol x_het flt True
     = for_each (\<lambda>x. map_sum id (vmap (\<lambda>v. max v 0))
                        (scatter_filter g decode_het filterVol flt x)) x_het"
proof -
  have unchanged: "(case s of Inl e \<Rightarrow> Inl e | Inr vol \<Rightarrow> Inr (threshold_volume False vol)) = s"
    for s :: "py_error + volume"
    by (cases s) (simp_all add: threshold_volume_False)
  have positive: "(case s of Inl e \<Rightarrow> Inl e | Inr vol \<Rightarrow> Inr (threshold_volume True vol))
      = map_sum id (vmap (\<lambda>v. max v 0)) s" for s :: "py_error + volume"
    by (cases s) (simp_all add: threshold_volume_True)
  show ?thesis
    by (simp add: decoder_eval_volume_het_def unchanged positive)
qed

subsection \<open>C7: the coordinate grid is restored\<close>

lemma eval_coords_loop_generator:
  "eval_coords_loop dec g cs vols = Inr (g', vols') \<Longrightarrow>
     g' = g\<lparr>g_coords := last (g_coords g # cs)\<rparr>"
proof (induction cs arbitrary: g vols)
  case Nil
  then show ?case by simp
next
  case (Cons c cs)
  from Cons.prems obtain vs where
    rest: "eval_coords_loop dec (g\<lparr>g_coords := c\<rparr>) cs (map2 (vmap2 (+)) vols vs) = Inr (g', vols')"
    by (auto simp: Let_def split: sum.splits)
  from Cons.IH [OF rest] show ?case by simp
qed

text \<open>
  Claim C7: whenever \<open>AutoEncoder.eval_volume_het\<close> returns, for every latent batch and
  every value of the four flags, the generator's coordinate grid is the one it had
  before the call (and so is the rest of the generator).
\<close>

theorem eval_volume_het_restores_coords:
  assumes "eval_volume_het getAllCoordsMask decode_het filterVol stored g x_het allCoords flt
             only_pos add_to_original = Inr (g', vols)"
  shows "g_coords g' = g_coords g \<and> g' = g"
  using assms
  by (auto simp: eval_volume_het_def Let_def split: sum.splits if_splits prod.splits
           dest!: eval_coords_loop_generator)

text \<open>A call that swaps the grid: \<open>step = 2\<close>, \<open>allCoords\<close> set, two grids to visit, one
  voxel and one latent code. It returns, with the grid back at its first value.\<close>

theorem eval_volume_het_restores_coords_witness:
  "eval_volume_het (\<lambda>g. [5, 7]) (\<lambda>l. [1]) (\<lambda>v. v) None
      \<lparr>g_coords = 3 :: nat, g_indices = [(0, 0, 0)], g_values = [1], g_xsize = 1, g_step = 2\<rparr>
      [()] True False False False
    = Inr (\<lparr>g_coords = 3, g_indices = [(0, 0, 0)], g_values = [1], g_xsize = 1, g_step = 2\<rparr>,
           [[[[4]]]])
   \<and> g_coords \<lparr>g_coords = 3 :: nat, g_indices = [(0, 0, 0)], g_values = [1], g_xsize = 1,
                g_step = 2\<rparr> = 3"
proof -
  let ?g = "\<lparr>g_coords = 3 :: nat, g_indices = [(0, 0, 0)], g_values = [1], g_xsize = 1,
             g_step = 2\<rparr>"
  have run: "eval_volume_het (\<lambda>g. [5, 7]) (\<lambda>l. [1]) (\<lambda>v. v) None ?g [()] True False False False
      = Inr (?g, [[[[4]]]])"
    by (simp add: eval_volume_het_def decoder_eval_volume_het_def scatter_filter_def
        add_rows_def index_assign_def assign_voxel_def np_index_def zeros3_def
        threshold_volume_def vmap_def vmap2_def Let_def)
  from eval_volume_het_restores_coords [OF run] run show ?thesis by simp
qed

subsection \<open>C6: the dispatch on \<open>predict_mode\<close>\<close>


text \<open>Whether or not the preparation succeeds, a mode other than the two never yields a
  prediction.\<close>

lemma predict_step_no_default:
  "ae_predict_mode ae \<noteq> ''het'' \<Longrightarrow> ae_predict_mode ae \<noteq> ''particles'' \<Longrightarrow>
     \<exists>e. predict_step ae computeCTF wiener2DFilter shape0 g data = Inl e"
  by (cases "prepare_prediction ae computeCTF wiener2DFilter shape0 g data")
     (auto simp: predict_step_def bind_err_def)

text \<open>In mode tomo with \<^verbatim>\<open>CTF = "wiener"\<close> the step never reaches the dispatch: it raises
  for every \<open>predict_mode\<close> (an exception of a gather, or the TypeError of line 986).\<close>

lemma predict_step_tomo_wiener_raises:
  assumes "ae_CTF ae = Some ''wiener''"
  shows "\<exists>e. predict_step ae computeCTF wiener2DFilter shape0 g
               (TomoBatch images subtomo_pe indexes) = Inl e"
  using assms
  by (auto simp: predict_step_def prepare_prediction_def bind_err_def Let_def
           split: sum.splits)



text \<open>Mode tomo on the same generator: with the Wiener filter the step raises the
  TypeError of line 986 whatever the mode of prediction; with \<^verbatim>\<open>CTF = "apply"\<close> it
  reaches the dispatch.\<close>

lemma example_tomo:
  "predict_step (example_autoencoder ''het'') (\<lambda>dU dV dA cs kv sr pad size b a. 9)
       (\<lambda>g t. t + 100) (\<lambda>t. 1) example_generator (TomoBatch 5 7 [1])
     = Inl (TypeError ''tuple object does not support item assignment'')"
  "predict_step ((example_autoencoder ''het'')\<lparr>ae_CTF := Some ''apply''\<rparr>)
       (\<lambda>dU dV dA cs kv sr pad size b a. 9)
       (\<lambda>g t. t + 100) (\<lambda>t. 1) example_generator (TomoBatch 5 7 [1])
     = Inr (Encoded 12,
            example_generator\<lparr>g_indexes := [1], g_current_images := 5, g_rot_batch := [20],
              g_tilt_batch := [21], g_psi_batch := [22], g_shifts_batch := ([2], [4]),
              g_ctf := 9, g_CTF := None\<rparr>)"
  by (simp_all add: predict_step_def prepare_prediction_def example_autoencoder_def
      example_generator_def tf_gather_def bind_err_def Let_def)


subsection \<open>C1: the winner among the candidates\<close>

lemma tf_where_length:
  "length msk = n \<Longrightarrow> length x = n \<Longrightarrow> length y = n \<Longrightarrow> length (tf_where msk x y) = n"
  by (simp add: tf_where_def)

lemma tf_where_nth:
  "length msk = n \<Longrightarrow> length x = n \<Longrightarrow> length y = n \<Longrightarrow> b < n \<Longrightarrow>
     tf_where msk x y ! b = (if msk ! b then x ! b else y ! b)"
  by (simp add: tf_where_def)

lemma select_candidate_shape:
  "selection_of B s \<Longrightarrow> batch_of B c \<Longrightarrow> selection_of B (select_candidate s c)"
  by (simp add: selection_of_def batch_of_def select_candidate_def Let_def tf_where_length)

lemma select_candidate_nth:
  assumes "selection_of B s" "batch_of B c" "b < B"
  shows "prev_loss_rec (select_candidate s c) ! b
           = (if c_loss_rec c ! b \<le> prev_loss_rec s ! b then c_loss_rec c ! b else prev_loss_rec s ! b)"
    and "keep_r (select_candidate s c) ! b
           = (if c_loss_rec c ! b \<le> prev_loss_rec s ! b then c_r c ! b else keep_r s ! b)"
    and "keep_shifts (select_candidate s c) ! b
           = (if c_loss_rec c ! b \<le> prev_loss_rec s ! b then c_shifts c ! b else keep_shifts s ! b)"
    and "keep_imgs (select_candidate s c) ! b
           = (if c_loss_rec c ! b \<le> prev_loss_rec s ! b then c_imgs c ! b else keep_imgs s ! b)"
  using assms
  by (simp_all add: selection_of_def batch_of_def select_candidate_def Let_def tf_where_nth)

lemma initial_selection_shape: "selection_of B (initial_selection B xsize)"
  by (simp add: selection_of_def initial_selection_def)

lemma foldl_select_shape:
  "\<forall>c \<in> set cands. batch_of B c \<Longrightarrow>
     selection_of B (foldl select_candidate (initial_selection B xsize) cands)"
  by (induction cands rule: rev_induct)
     (simp_all add: initial_selection_shape select_candidate_shape)

lemma kept_select:
  assumes "selection_of B s" "batch_of B c" "b < B"
  shows "kept (select_candidate s c) b
           = (if c_loss_rec c ! b \<le> prev_loss_rec s ! b then produced c b else kept s b)"
  using select_candidate_nth [OF assms] by (simp add: kept_def produced_def)

lemma winner_at_new:
  assumes "prev_loss_rec s' ! b = c_loss_rec c ! b" "kept s' b = produced c b"
  shows "winner_at (cands @ [c]) b s' (length cands)"
  using assms by (simp add: winner_at_def)

lemma winner_at_stays:
  assumes "winner_at cands b s k" "prev_loss_rec s ! b < c_loss_rec c ! b"
    "prev_loss_rec s' ! b = prev_loss_rec s ! b" "kept s' b = kept s b"
  shows "winner_at (cands @ [c]) b s' k"
  using assms by (auto simp: winner_at_def nth_append less_Suc_eq)

lemma selection_invariant:
  assumes wf: "\<forall>c \<in> set cands. batch_of B c" and b: "b < B"
  shows "let s = foldl select_candidate (initial_selection B xsize) cands in
     (\<forall>j < length cands. prev_loss_rec s ! b \<le> c_loss_rec (cands ! j) ! b)
     \<and> prev_loss_rec s ! b \<le> 10000
     \<and> ((prev_loss_rec s ! b = 10000 \<and> kept s b = kept (initial_selection B xsize) b
          \<and> (\<forall>j < length cands. 10000 < c_loss_rec (cands ! j) ! b))
        \<or> (\<exists>k. winner_at cands b s k))"
  using wf
proof (induction cands rule: rev_induct)
  case Nil
  then show ?case using b by (simp add: initial_selection_def)
next
  case (snoc c cands)
  define s where "s = foldl select_candidate (initial_selection B xsize) cands"
  have shape: "selection_of B s"
    unfolding s_def using snoc.prems by (intro foldl_select_shape) simp
  have c: "batch_of B c" using snoc.prems by simp
  have IH_lower: "\<forall>j < length cands. prev_loss_rec s ! b \<le> c_loss_rec (cands ! j) ! b"
    and IH_small: "prev_loss_rec s ! b \<le> 10000"
    and IH_cases: "(prev_loss_rec s ! b = 10000 \<and> kept s b = kept (initial_selection B xsize) b
          \<and> (\<forall>j < length cands. 10000 < c_loss_rec (cands ! j) ! b))
        \<or> (\<exists>k. winner_at cands b s k)"
    using snoc.IH snoc.prems by (simp_all add: s_def Let_def)
  let ?s' = "select_candidate s c"
  have prev': "prev_loss_rec ?s' ! b
      = (if c_loss_rec c ! b \<le> prev_loss_rec s ! b then c_loss_rec c ! b else prev_loss_rec s ! b)"
    by (rule select_candidate_nth(1) [OF shape c b])
  have kept': "kept ?s' b
      = (if c_loss_rec c ! b \<le> prev_loss_rec s ! b then produced c b else kept s b)"
    by (rule kept_select [OF shape c b])
  have lower: "\<forall>j < length (cands @ [c]). prev_loss_rec ?s' ! b \<le> c_loss_rec ((cands @ [c]) ! j) ! b"
    using IH_lower prev' by (auto simp: nth_append less_Suc_eq)
  have small: "prev_loss_rec ?s' ! b \<le> 10000" using IH_small prev' by simp
  have "(prev_loss_rec ?s' ! b = 10000 \<and> kept ?s' b = kept (initial_selection B xsize) b
          \<and> (\<forall>j < length (cands @ [c]). 10000 < c_loss_rec ((cands @ [c]) ! j) ! b))
        \<or> (\<exists>k. winner_at (cands @ [c]) b ?s' k)"
  proof (cases "c_loss_rec c ! b \<le> prev_loss_rec s ! b")
    case True
    then have "winner_at (cands @ [c]) b ?s' (length cands)"
      using prev' kept' by (intro winner_at_new) simp_all
    then show ?thesis by blast
  next
    case False
    from IH_cases show ?thesis
    proof
      assume none: "prev_loss_rec s ! b = 10000 \<and> kept s b = kept (initial_selection B xsize) b
          \<and> (\<forall>j < length cands. 10000 < c_loss_rec (cands ! j) ! b)"
      then have "\<forall>j < length (cands @ [c]). 10000 < c_loss_rec ((cands @ [c]) ! j) ! b"
        using False by (auto simp: nth_append less_Suc_eq)
      with none False prev' kept' show ?thesis by simp
    next
      assume "\<exists>k. winner_at cands b s k"
      then obtain k where "winner_at cands b s k" ..
      then have "winner_at (cands @ [c]) b ?s' k"
        using False prev' kept' by (intro winner_at_stays [of cands b s k]) simp_all
      then show ?thesis by blast
    qed
  qed
  with lower small show ?case
    by (simp add: s_def Let_def)
qed

lemma best_loss_rec_shape:
  "\<forall>l \<in> set losses. length l = B \<Longrightarrow> length (best_loss_rec B losses) = B"
  by (induction losses rule: rev_induct) (simp_all add: best_loss_rec_def)

lemma best_loss_rec_Min:
  assumes "\<forall>l \<in> set losses. length l = B" and "b < B"
  shows "best_loss_rec B losses ! b = Min (insert 10000 ((\<lambda>l. l ! b) ` set losses))"
  using assms(1)
proof (induction losses rule: rev_induct)
  case Nil
  then show ?case using assms(2) by (simp add: best_loss_rec_def)
next
  case (snoc l losses)
  have len: "length (best_loss_rec B losses) = B"
    using snoc.prems by (intro best_loss_rec_shape) simp
  have "best_loss_rec B (losses @ [l]) ! b = min (l ! b) (best_loss_rec B losses ! b)"
    using snoc.prems assms(2) len by (simp add: best_loss_rec_def)
  also have "\<dots> = min (l ! b) (Min (insert 10000 ((\<lambda>l. l ! b) ` set losses)))"
    using snoc by simp
  also have "\<dots> = Min (insert (l ! b) (insert 10000 ((\<lambda>l. l ! b) ` set losses)))"
    by simp
  finally show ?case by (simp add: insert_commute)
qed

text \<open>
  What the two loops compute, for heads' outputs of batch size \<open>B\<close> and a batch element
  \<open>b\<close>. The running loss is the minimum of the initial 10000 and the candidates' losses
  at \<open>b\<close>, never an average. If some candidate's loss at \<open>b\<close> is at most 10000, the pose,
  shift and image kept for \<open>b\<close> are those of the last candidate, in the order of the
  loop, whose loss at \<open>b\<close> is minimal over all candidates, and the running loss is its
  loss. If every candidate's loss at \<open>b\<close> exceeds 10000, no candidate is accepted: the
  zero pose, zero shift and zero image of the initialisation are kept, and the running
  loss is 10000.
\<close>

lemma winner_takes_all_minimum:
  assumes "\<forall>c \<in> set cands. batch_of B c" and "b < B"
  shows "best_loss_rec B (map c_loss_rec cands) ! b
           = Min (insert 10000 ((\<lambda>c. c_loss_rec c ! b) ` set cands))"
    and "\<exists>c \<in> set cands. c_loss_rec c ! b \<le> 10000 \<Longrightarrow>
          \<exists>k < length cands.
              (\<forall>j < length cands. c_loss_rec (cands ! k) ! b \<le> c_loss_rec (cands ! j) ! b)
            \<and> (\<forall>j < length cands. k < j \<longrightarrow>
                  c_loss_rec (cands ! k) ! b < c_loss_rec (cands ! j) ! b)
            \<and> fst (winner_takes_all B xsize cands) ! b = c_r (cands ! k) ! b
            \<and> fst (snd (winner_takes_all B xsize cands)) ! b = c_shifts (cands ! k) ! b
            \<and> snd (snd (winner_takes_all B xsize cands)) ! b = c_imgs (cands ! k) ! b
            \<and> best_loss_rec B (map c_loss_rec cands) ! b = c_loss_rec (cands ! k) ! b"
    and "\<forall>c \<in> set cands. 10000 < c_loss_rec c ! b \<Longrightarrow>
            fst (winner_takes_all B xsize cands) ! b = replicate 3 (replicate 3 0)
          \<and> fst (snd (winner_takes_all B xsize cands)) ! b = replicate 2 0
          \<and> snd (snd (winner_takes_all B xsize cands)) ! b = zeros2 xsize
          \<and> best_loss_rec B (map c_loss_rec cands) ! b = 10000"
proof -
  define s where "s = foldl select_candidate (initial_selection B xsize) cands"
  show best: "best_loss_rec B (map c_loss_rec cands) ! b
           = Min (insert 10000 ((\<lambda>c. c_loss_rec c ! b) ` set cands))"
    using best_loss_rec_Min [of "map c_loss_rec cands" B b] assms
    by (simp add: batch_of_def image_image)
  have lower: "\<forall>j < length cands. prev_loss_rec s ! b \<le> c_loss_rec (cands ! j) ! b"
    and cases: "(prev_loss_rec s ! b = 10000 \<and> kept s b = kept (initial_selection B xsize) b
          \<and> (\<forall>j < length cands. 10000 < c_loss_rec (cands ! j) ! b))
        \<or> (\<exists>k. winner_at cands b s k)"
    using selection_invariant [OF assms, of xsize] by (simp_all add: s_def Let_def)
  have win: "winner_takes_all B xsize cands = (keep_r s, keep_shifts s, keep_imgs s)"
    by (simp add: winner_takes_all_def s_def Let_def)
  show "\<exists>k < length cands.
              (\<forall>j < length cands. c_loss_rec (cands ! k) ! b \<le> c_loss_rec (cands ! j) ! b)
            \<and> (\<forall>j < length cands. k < j \<longrightarrow>
                  c_loss_rec (cands ! k) ! b < c_loss_rec (cands ! j) ! b)
            \<and> fst (winner_takes_all B xsize cands) ! b = c_r (cands ! k) ! b
            \<and> fst (snd (winner_takes_all B xsize cands)) ! b = c_shifts (cands ! k) ! b
            \<and> snd (snd (winner_takes_all B xsize cands)) ! b = c_imgs (cands ! k) ! b
            \<and> best_loss_rec B (map c_loss_rec cands) ! b = c_loss_rec (cands ! k) ! b"
    if some: "\<exists>c \<in> set cands. c_loss_rec c ! b \<le> 10000"
  proof -
    from some obtain i where i: "i < length cands" "c_loss_rec (cands ! i) ! b \<le> 10000"
      by (auto simp: in_set_conv_nth)
    with cases obtain k where "winner_at cands b s k" by force
    then have k: "k < length cands"
        "prev_loss_rec s ! b = c_loss_rec (cands ! k) ! b" "kept s b = produced (cands ! k) b"
        "\<forall>j < length cands. k < j \<longrightarrow> c_loss_rec (cands ! k) ! b < c_loss_rec (cands ! j) ! b"
      by (simp_all add: winner_at_def)
    have least: "\<forall>j < length cands. c_loss_rec (cands ! k) ! b \<le> c_loss_rec (cands ! j) ! b"
      using lower k(2) by simp
    have "Min (insert 10000 ((\<lambda>c. c_loss_rec c ! b) ` set cands)) = c_loss_rec (cands ! k) ! b"
    proof (rule Min_eqI)
      show "finite (insert 10000 ((\<lambda>c. c_loss_rec c ! b) ` set cands))" by simp
      show "c_loss_rec (cands ! k) ! b \<le> y"
        if "y \<in> insert 10000 ((\<lambda>c. c_loss_rec c ! b) ` set cands)" for y
        using that least i by (auto simp: in_set_conv_nth intro: order_trans)
      show "c_loss_rec (cands ! k) ! b \<in> insert 10000 ((\<lambda>c. c_loss_rec c ! b) ` set cands)"
        using k(1) by simp
    qed
    with best least k win show ?thesis
      by (auto simp: kept_def produced_def)
  qed
  show "fst (winner_takes_all B xsize cands) ! b = replicate 3 (replicate 3 0)
          \<and> fst (snd (winner_takes_all B xsize cands)) ! b = replicate 2 0
          \<and> snd (snd (winner_takes_all B xsize cands)) ! b = zeros2 xsize
          \<and> best_loss_rec B (map c_loss_rec cands) ! b = 10000"
    if none: "\<forall>c \<in> set cands. 10000 < c_loss_rec c ! b"
  proof -
    have no_winner: "\<not> winner_at cands b s k" for k
    proof
      assume "winner_at cands b s k"
      then have "k < length cands" "prev_loss_rec s ! b = c_loss_rec (cands ! k) ! b"
        by (simp_all add: winner_at_def)
      moreover have "prev_loss_rec s ! b \<le> 10000"
        using selection_invariant [OF assms, of xsize] by (simp add: s_def Let_def)
      ultimately show False using none by (auto simp: not_le dest!: nth_mem)
    qed
    with cases have init: "kept s b = kept (initial_selection B xsize) b" by blast
    have "Min (insert 10000 ((\<lambda>c. c_loss_rec c ! b) ` set cands)) = 10000"
      using none by (intro Min_eqI) (auto intro: less_imp_le)
    with best init win assms(2) show ?thesis
      by (simp add: kept_def initial_selection_def)
  qed
qed

text \<open>Four heads on one image, losses 3, 2, 2 and 7: the third head's outputs are kept
  (the later of the two minimal ones).\<close>

lemma winner_takes_all_example:
  "best_loss_rec 1 [[3], [2], [2], [7]] ! 0 = 2
   \<and> winner_takes_all 1 1
       [\<lparr>c_r = [[[1]]], c_shifts = [[1]], c_imgs = [[[1]]], c_loss_rec = [3]\<rparr>,
        \<lparr>c_r = [[[2]]], c_shifts = [[2]], c_imgs = [[[2]]], c_loss_rec = [2]\<rparr>,
        \<lparr>c_r = [[[3]]], c_shifts = [[3]], c_imgs = [[[3]]], c_loss_rec = [2]\<rparr>,
        \<lparr>c_r = [[[4]]], c_shifts = [[4]], c_imgs = [[[4]]], c_loss_rec = [7]\<rparr>]
     = ([[[3]]], [[3]], [[[3]]])"
  by (simp add: winner_takes_all_def initial_selection_def select_candidate_def tf_where_def
      best_loss_rec_def zeros2_def Let_def)

text \<open>
  Claim C1 says that for every batch and every number of heads the selection keeps, per
  batch element, the pose, shift and image of the candidate of globally minimal loss,
  and that the loss of \<open>decode_images_with_loss\<close> is the element-wise minimum of the
  candidates' losses. The code does not do so where every candidate's loss exceeds the
  initial \<open>prev_loss_rec = 10000\<close>: for one image and one head of loss 20000, with the
  identity as rotation, shift \<open>(2, 3)\<close> and image \<open>[[5]]\<close>, the step returns the zero
  matrix, the zero shift and the zero image of the initialisation, none of them the
  head's, and the running loss is 10000, not the minimum 20000.
\<close>

theorem winner_takes_all_above_initial_loss:
  "winner_takes_all 1 1
         [\<lparr>c_r = [[[1, 0, 0], [0, 1, 0], [0, 0, 1]]], c_shifts = [[2, 3]], c_imgs = [[[5]]],
           c_loss_rec = [20000]\<rparr>]
     = ([[[0, 0, 0], [0, 0, 0], [0, 0, 0]]], [[0, 0]], [[[0]]])
   \<and> [[[0, 0, 0], [0, 0, 0], [0, 0, 0]]] \<noteq> [[[1, 0, 0], [0, 1, 0], [0, 0, (1::real)]]]
   \<and> best_loss_rec 1 [[20000]] = [10000]
   \<and> best_loss_rec 1 [[20000]] \<noteq> [20000]"
  by (simp add: winner_takes_all_def initial_selection_def select_candidate_def tf_where_def
      best_loss_rec_def zeros2_def Let_def numeral_3_eq_3 numeral_2_eq_2)

subsection \<open>C5: the weights of the scatter projection\<close>

lemma tf_round_of_int: "tf_round (of_int i) = of_int i"
  by (simp add: tf_round_def)

lemma cast_int32_of_int: "cast_int32 (of_int i) = i"
  by (simp add: cast_int32_def)

lemma tf_round_integer: "\<exists>k::int. tf_round x = of_int k"
  by (simp add: tf_round_def Let_def)

lemma tf_round_nearest: "\<bar>tf_round x - x\<bar> \<le> \<bar>of_int k - x\<bar>"
proof -
  define f where "f = \<lfloor>x\<rfloor>"
  have fx: "of_int f \<le> x" "x < of_int f + 1"
    by (simp_all add: f_def)
  consider "k \<le> f" | "f + 1 \<le> k" by linarith
  then show ?thesis
  proof cases
    case 1
    then have "(of_int k :: real) \<le> of_int f" by simp
    with fx show ?thesis
      unfolding tf_round_def Let_def f_def [symmetric]
      by (auto simp: abs_if split: if_splits)
  next
    case 2
    then have "(of_int f :: real) + 1 \<le> of_int k"
      by (metis of_int_1 of_int_add of_int_le_iff)
    with fx show ?thesis
      unfolding tf_round_def Let_def f_def [symmetric]
      by (auto simp: abs_if split: if_splits)
  qed
qed

lemma scatter_project_unfold:
  "length vals = length ro \<Longrightarrow>
   scatter_project xsize ro vals =
     tensor_scatter_nd_add (zeros2 xsize)
       (map (\<lambda>(a, b). (cast_int32 (tf_round a), cast_int32 (tf_round b))) ro)
       (map2 (\<lambda>v (a, b). v * exp (- ((tf_round a - a) ^ 2 + (tf_round b - b) ^ 2) / (2 * 1 ^ 2)))
          vals ro)"
proof -
  have w: "map (\<lambda>n. exp (- n / (2 * 1 ^ 2)))
        (map2 (\<lambda>(ra, rb) (a, b). (ra - a) ^ 2 + (rb - b) ^ 2)
           (map (\<lambda>(a, b). (tf_round a, tf_round b)) ro) ro)
      = map (\<lambda>(a, b). exp (- ((tf_round a - a) ^ 2 + (tf_round b - b) ^ 2) / (2 * 1 ^ 2))) ro"
    by (induction ro) (auto simp: field_simps)
  have m: "map2 (*) vals (map (\<lambda>(a, b). exp (- ((tf_round a - a) ^ 2 + (tf_round b - b) ^ 2) / (2 * 1 ^ 2))) ro)
      = map2 (\<lambda>v (a, b). v * exp (- ((tf_round a - a) ^ 2 + (tf_round b - b) ^ 2) / (2 * 1 ^ 2))) vals ro"
    by (induction vals ro rule: list_induct2') auto
  have f: "map (\<lambda>(a, b). (cast_int32 a, cast_int32 b)) (map (\<lambda>(a, b). (tf_round a, tf_round b)) ro)
      = map (\<lambda>(a, b). (cast_int32 (tf_round a), cast_int32 (tf_round b))) ro"
    by (induction ro) auto
  assume "length vals = length ro"
  then show ?thesis
    unfolding scatter_project_def Let_def w f m
    by (simp only: length_map if_True simp_thms)
qed

lemma single_pixel:
  "a < n \<Longrightarrow> b < n \<Longrightarrow> r < n \<Longrightarrow> c < n \<Longrightarrow>
     ((zeros2 n)[a := (zeros2 n ! a)[b := v]]) ! r ! c = (if r = a \<and> c = b then v else 0)"
  by (simp add: zeros2_def nth_list_update)

lemma scatter_project_single:
  assumes "0 \<le> i" "i < int xsize" "0 \<le> j" "j < int xsize"
  shows "scatter_project xsize [(of_int i, of_int j)] [v]
           = Inr ((zeros2 xsize)[nat i := (zeros2 xsize ! nat i)[nat j := v]])"
  using assms
  by (simp add: scatter_project_def Let_def tf_round_of_int cast_int32_of_int
      tensor_scatter_nd_add_def scatter_add_pixel_def zeros2_def)


text \<open>
  Claim C5: in the scatter projection every point's value is multiplied by
  \<open>exp (- d\<^sup>2 / (2 \<sigma>\<^sup>2))\<close> with \<open>\<sigma> = 1\<close>, where \<open>d\<^sup>2\<close> is the squared distance between
  the projected position and its rounding target, and the target of each coordinate
  is an integer nearest to it. So for one point at an integer pixel \<open>(i, j)\<close> of the image
  the weight is 1, and the image scattered from zeros holds the point's whole value
  at \<open>(i, j)\<close> and 0 at every other pixel.
\<close>

theorem scatter_project_gaussian_weight:
  "(length vals = length ro \<longrightarrow>
      scatter_project xsize ro vals =
        tensor_scatter_nd_add (zeros2 xsize)
          (map (\<lambda>(a, b). (cast_int32 (tf_round a), cast_int32 (tf_round b))) ro)
          (map2 (\<lambda>v (a, b).
                   v * exp (- ((tf_round a - a) ^ 2 + (tf_round b - b) ^ 2) / (2 * 1 ^ 2)))
             vals ro))
   \<and> (\<exists>k::int. tf_round x = of_int k)
   \<and> (\<forall>k::int. \<bar>tf_round x - x\<bar> \<le> \<bar>of_int k - x\<bar>)
   \<and> (0 \<le> i \<and> i < int xsize \<and> 0 \<le> j \<and> j < int xsize \<longrightarrow>
        exp (- ((tf_round (of_int i) - of_int i) ^ 2 + (tf_round (of_int j) - of_int j) ^ 2)
               / (2 * 1 ^ 2)) = 1
      \<and> scatter_project xsize [(of_int i, of_int j)] [v]
           = Inr ((zeros2 xsize)[nat i := (zeros2 xsize ! nat i)[nat j := v]])
      \<and> (\<forall>r < xsize. \<forall>c < xsize.
            ((zeros2 xsize)[nat i := (zeros2 xsize ! nat i)[nat j := v]]) ! r ! c
              = (if r = nat i \<and> c = nat j then v else 0)))"
proof -
  have "((zeros2 xsize)[nat i := (zeros2 xsize ! nat i)[nat j := v]]) ! r ! c
              = (if r = nat i \<and> c = nat j then v else 0)"
    if "0 \<le> i" "i < int xsize" "0 \<le> j" "j < int xsize" "r < xsize" "c < xsize" for r c
    using that by (intro single_pixel) simp_all
  then show ?thesis
    using scatter_project_unfold [of vals ro xsize] tf_round_integer [of x]
      tf_round_nearest [of x] scatter_project_single [of i xsize j v]
    by (simp add: tf_round_of_int)
qed

text \<open>A point on pixel \<open>(1, 2)\<close> of a 3 by 3 image, and a point half a pixel off
  (rounded to the even row 2, weight \<open>exp (- 1/8)\<close>).\<close>

lemma tf_round_half: "tf_round (3/2) = 2" "tf_round 0 = 0"
  by (simp_all add: tf_round_def Let_def)

theorem scatter_project_gaussian_weight_witness:
  "scatter_project 3 [(1, 2)] [7] = Inr [[0, 0, 0], [0, 0, 7], [0, 0, 0]]
   \<and> scatter_project 3 [(3/2, 0)] [7] = Inr [[0, 0, 0], [0, 0, 0], [7 * exp (- (1/8)), 0, 0]]"
proof -
  have "scatter_project 3 [(of_int 1, of_int 2)] [7]
      = Inr ((zeros2 3)[nat 1 := (zeros2 3 ! nat 1)[nat 2 := 7]])"
    using scatter_project_gaussian_weight [of "[7]" "[(1, 2)]" 3 0 1 2 7,
        THEN conjunct2, THEN conjunct2, THEN conjunct2]
    by simp
  then have integer_point: "scatter_project 3 [(1, 2)] [7] = Inr [[0, 0, 0], [0, 0, 7], [0, 0, 0]]"
    by (simp add: zeros2_def numeral_3_eq_3 numeral_2_eq_2)
  have "scatter_project 3 [(3/2, 0)] [7]
      = tensor_scatter_nd_add (zeros2 3)
          (map (\<lambda>(a, b). (cast_int32 (tf_round a), cast_int32 (tf_round b))) [(3/2, 0)])
          (map2 (\<lambda>v (a, b).
                   v * exp (- ((tf_round a - a) ^ 2 + (tf_round b - b) ^ 2) / (2 * 1 ^ 2)))
             [7] [(3/2, 0)])"
    using scatter_project_gaussian_weight [of "[7]" "[(3/2, 0)]" 3 0 0 0 7, THEN conjunct1]
    by simp
  then have "scatter_project 3 [(3/2, 0)] [7]
      = Inr [[0, 0, 0], [0, 0, 0], [7 * exp (- (1/8)), 0, 0]]"
    by (simp add: tf_round_half cast_int32_def tensor_scatter_nd_add_def scatter_add_pixel_def
        zeros2_def numeral_3_eq_3 numeral_2_eq_2 power2_eq_square)
  with integer_point show ?thesis by simp
qed

subsection \<open>C8: the blur filter bank\<close>

lemma np_linspace_length: "length (np_linspace a b n) = n"
  by (simp add: np_linspace_def)

lemma np_linspace_nth:
  "i < n \<Longrightarrow> np_linspace a b n ! i = a + real i * ((b - a) / real (n - 1))"
  by (auto simp: np_linspace_def)

lemma np_linspace_ends:
  assumes "2 \<le> n"
  shows "np_linspace a b n ! 0 = a" and "np_linspace a b n ! (n - 1) = b"
  using assms by (simp_all add: np_linspace_nth)

lemma np_linspace_increasing:
  assumes "a < b" "Suc i < n"
  shows "np_linspace a b n ! i < np_linspace a b n ! Suc i"
proof -
  define d where "d = (b - a) / real (n - 1)"
  have "0 < d" using assms by (simp add: d_def)
  then have "a + real i * d < a + real (Suc i) * d" by simp
  moreover have "np_linspace a b n ! i = a + real i * d"
    using assms(2) by (simp only: d_def np_linspace_nth [of i n a b] Suc_lessD)
  moreover have "np_linspace a b n ! Suc i = a + real (Suc i) * d"
    using assms(2) by (simp only: d_def np_linspace_nth [of "Suc i" n a b])
  ultimately show ?thesis by (simp only:)
qed

lemma np_linspace_nonneg:
  assumes "0 \<le> a" "0 \<le> b" "x \<in> set (np_linspace a b n)"
  shows "0 \<le> x"
proof -
  from assms(3) obtain i where i: "i < n" "x = a + real i * ((b - a) / real (n - 1))"
    by (auto simp: in_set_conv_nth np_linspace_length np_linspace_nth)
  show ?thesis
  proof (cases "n = 1")
    case True
    with i assms show ?thesis by simp
  next
    case False
    define m where "m = real (n - 1)"
    from False i have m: "0 < m" "real i \<le> m" by (simp_all add: m_def)
    define t where "t = real i / m"
    have t: "0 \<le> t" "t \<le> 1" using m by (simp_all add: t_def)
    have "x = a + real i * ((b - a) / m)" using i(2) by (simp add: m_def)
    also have "\<dots> = (1 - t) * a + t * b"
      by (simp add: t_def algebra_simps diff_divide_distrib)
    finally have "x = (1 - t) * a + t * b" .
    moreover have "0 \<le> (1 - t) * a" "0 \<le> t * b" using t assms by simp_all
    ultimately show ?thesis by simp
  qed
qed

lemma np_diff_positive:
  assumes "\<And>i. Suc i < length ys \<Longrightarrow> ys ! i < ys ! Suc i" and "e \<in> set (np_diff ys)"
  shows "0 < e"
proof -
  from assms(2) obtain i where i: "i < length (zip (tl ys) ys)"
      "e = fst (zip (tl ys) ys ! i) - snd (zip (tl ys) ys ! i)"
    by (auto simp: np_diff_def in_set_conv_nth split_def)
  then have "Suc i < length ys" by simp
  with i assms(1) [of i] show ?thesis by (simp add: nth_tl)
qed

lemma np_diff_length: "length (np_diff ys) = length ys - 1"
  by (simp add: np_diff_def)

lemma sum_list_positive:
  fixes xs :: "real list"
  shows "xs \<noteq> [] \<Longrightarrow> \<forall>x \<in> set xs. 0 < x \<Longrightarrow> 0 < sum_list xs"
  by (induction xs) (auto intro: add_pos_nonneg sum_list_nonneg less_imp_le)

lemma concat_map_map: "concat (map (map f) xss) = map f (concat xss)"
  by (induction xss) simp_all

lemma sum_list_scaled:
  fixes xs :: "real list"
  shows "sum_list (map (\<lambda>r. r / c) xs) = sum_list xs / c"
  by (induction xs) (simp_all add: add_divide_distrib)

lemma kernel_unit_sum:
  assumes pos: "\<forall>k \<in> set kern1d. 0 < k" and ne: "kern1d \<noteq> []"
  defines "kernel_raw \<equiv> map (\<lambda>a. map (\<lambda>b. tf_sqrt (Fin (a * b))) kern1d) kern1d"
  shows "kernel_sum (map (map (\<lambda>e. tf_div e (reduce_sum (concat kernel_raw)))) kernel_raw) = Fin 1"
proof -
  define R where "R = map (\<lambda>a. map (\<lambda>b. sqrt (a * b)) kern1d) kern1d"
  have raw: "kernel_raw = map (map Fin) R"
    using pos by (auto simp: kernel_raw_def R_def not_less intro!: mult_nonneg_nonneg less_imp_le)
  define S where "S = sum_list (concat R)"
  have total: "reduce_sum (concat kernel_raw) = Fin S"
    by (simp add: raw concat_map_map reduce_sum_Fin S_def)
  have "concat R \<noteq> []" using ne by (cases kern1d) (auto simp: R_def)
  moreover have "\<forall>x \<in> set (concat R). 0 < x"
    using pos by (auto simp: R_def)
  ultimately have S: "0 < S" unfolding S_def by (rule sum_list_positive)
  have scaled: "map (map (\<lambda>e. tf_div e (Fin S))) (map (map Fin) R)
      = map (map Fin) (map (map (\<lambda>r. r / S)) R)"
    using S by simp
  have "map (map (\<lambda>e. tf_div e (reduce_sum (concat kernel_raw)))) kernel_raw
      = map (map Fin) (map (map (\<lambda>r. r / S)) R)"
    unfolding total unfolding raw by (rule scaled)
  then have "kernel_sum (map (map (\<lambda>e. tf_div e (reduce_sum (concat kernel_raw)))) kernel_raw)
      = Fin (sum_list (map (\<lambda>r. r / S) (concat R)))"
    by (simp only: kernel_sum_def concat_map_map reduce_sum_Fin)
  also have "sum_list (map (\<lambda>r. r / S) (concat R)) = sum_list (concat R) / S"
    by (rule sum_list_scaled)
  finally show ?thesis using S by (simp add: S_def)
qed



lemma cauchy_cdf_strict_mono: "strict_mono cauchy_cdf"
  by (simp add: strict_mono_def cauchy_cdf_def arctan_less_iff divide_strict_right_mono)

lemma gaussian_kernel_array_unit_sum:
  assumes "strict_mono cdf" "2 \<le> ksize" "0 \<le> std"
  shows "kernel_sum (gaussian_kernel_array cdf ksize std) = Fin 1"
proof -
  define interval where "interval = (2 * std + 1) / real ksize"
  define x where "x = np_linspace (- std - interval / 2) (std + interval / 2) ksize"
  define kern1d where "kern1d = np_diff (map cdf x)"
  have "0 < interval" using assms by (simp add: interval_def)
  then have grid: "- std - interval / 2 < std + interval / 2" using assms(3) by simp
  have len: "length x = ksize" by (simp add: x_def np_linspace_length)
  have "map cdf x ! i < map cdf x ! Suc i" if "Suc i < length (map cdf x)" for i
  proof -
    from that have i: "Suc i < ksize" by (simp add: len)
    then have "x ! i < x ! Suc i"
      unfolding x_def by (intro np_linspace_increasing grid)
    with assms(1) i show ?thesis by (simp add: len strict_mono_def)
  qed
  then have pos: "\<forall>k \<in> set kern1d. 0 < k"
    unfolding kern1d_def using np_diff_positive by blast
  have "length kern1d = ksize - 1" by (simp add: kern1d_def np_diff_length len)
  with assms(2) have ne: "kern1d \<noteq> []" by auto
  show ?thesis
    using kernel_unit_sum [OF pos ne]
    by (simp add: gaussian_kernel_array_def Let_def interval_def [symmetric] x_def [symmetric]
        kern1d_def [symmetric])
qed

lemma gaussian_kernel_array_size_one: "gaussian_kernel_array cdf (Suc 0) std = []"
  by (simp add: gaussian_kernel_array_def np_linspace_def np_diff_def)

lemma gaussian_kernel_array_shape:
  "length (gaussian_kernel_array cdf ksize std) = ksize - 1"
  "\<forall>row \<in> set (gaussian_kernel_array cdf ksize std). length row = ksize - 1"
  by (simp_all add: gaussian_kernel_array_def Let_def np_diff_length np_linspace_length)

text \<open>The two exceptions: a Python-float deviation with \<open>size = 0\<close>, and an empty bank.\<close>

lemma gaussian_kernel_size_zero:
  "gaussian_kernel cdf 0 (PyFloat std) = Inl (ZeroDivisionError ''float division by zero'')"
  "gaussian_kernel cdf 0 (NpFloat std) = Inr []"
  by (simp_all add: gaussian_kernel_def gaussian_kernel_array_def np_linspace_def np_diff_def)

lemma create_blur_filters_none:
  "create_blur_filters cdf 0 max_std filter_size
     = Inl (ValueError ''need at least one array to stack'')"
  by (simp add: create_blur_filters_def np_linspace_def bind_err_def)

lemma for_each_total: "for_each (\<lambda>x. Inr (f x)) xs = Inr (map f xs)"
  by (induction xs) simp_all

lemma create_blur_filters_bank:
  "0 < num_filters \<Longrightarrow>
   create_blur_filters cdf num_filters max_std filter_size
     = Inr (map (gaussian_kernel_array cdf filter_size) (np_linspace (1/10) max_std num_filters))"
proof -
  assume n: "0 < num_filters"
  have "np_linspace (1/10) max_std num_filters \<noteq> []"
    using n np_linspace_length [of "1/10" max_std num_filters] by auto
  then show ?thesis
    by (simp add: create_blur_filters_def gaussian_kernel_def for_each_total bind_err_def)
qed

text \<open>
  What the bank is where the construction works: for a strictly increasing distribution
  function, \<open>filter_size \<ge> 2\<close>, \<open>max_std \<ge> 0\<close> and at least one filter, there are exactly
  \<open>num_filters\<close> kernels, kernel \<open>k\<close> is the Gaussian kernel of deviation
  \<open>0.1 + k (max_std - 0.1) / (num_filters - 1)\<close> (from 0.1 to \<open>max_std\<close> when there are at
  least two), of \<open>filter_size - 1\<close> rows, and every kernel sums to exactly 1.
\<close>

lemma create_blur_filters_unit_sum:
  assumes "strict_mono cdf" "2 \<le> filter_size" "0 \<le> max_std" "0 < num_filters"
  shows "\<exists>bank. create_blur_filters cdf num_filters max_std filter_size = Inr bank
     \<and> length bank = num_filters
     \<and> (\<forall>k < num_filters.
          bank ! k = gaussian_kernel_array cdf filter_size
                       (1/10 + real k * ((max_std - 1/10) / real (num_filters - 1))))
     \<and> (2 \<le> num_filters \<longrightarrow>
          bank ! 0 = gaussian_kernel_array cdf filter_size (1/10)
        \<and> bank ! (num_filters - 1) = gaussian_kernel_array cdf filter_size max_std)
     \<and> (\<forall>kern \<in> set bank. kernel_sum kern = Fin 1 \<and> length kern = filter_size - 1)"
proof -
  define bank where
    "bank = map (gaussian_kernel_array cdf filter_size) (np_linspace (1/10) max_std num_filters)"
  have run: "create_blur_filters cdf num_filters max_std filter_size = Inr bank"
    unfolding bank_def using assms(4) by (rule create_blur_filters_bank)
  have nth: "bank ! k
      = gaussian_kernel_array cdf filter_size (np_linspace (1/10) max_std num_filters ! k)"
    if "k < num_filters" for k
    using that by (simp add: bank_def np_linspace_length)
  have ends: "bank ! 0 = gaussian_kernel_array cdf filter_size (1/10)
        \<and> bank ! (num_filters - 1) = gaussian_kernel_array cdf filter_size max_std"
    if "2 \<le> num_filters"
    using that nth [of 0] nth [of "num_filters - 1"] np_linspace_ends [OF that, of "1/10" max_std]
    by simp
  have sums: "kernel_sum kern = Fin 1 \<and> length kern = filter_size - 1"
    if "kern \<in> set bank" for kern
  proof -
    from that obtain std where "std \<in> set (np_linspace (1/10) max_std num_filters)"
        "kern = gaussian_kernel_array cdf filter_size std"
      by (auto simp: bank_def)
    moreover from this assms(3) have "0 \<le> std"
      using np_linspace_nonneg [of "1/10" max_std std num_filters] by simp
    ultimately show ?thesis
      using gaussian_kernel_array_unit_sum [OF assms(1,2)] gaussian_kernel_array_shape(1)
      by simp
  qed
  have "length bank = num_filters" by (simp add: bank_def np_linspace_length)
  with run nth ends sums show ?thesis
    by (auto simp: np_linspace_nth)
qed

text \<open>The bank of the constructor, \<open>create_blur_filters(3, 3, 9)\<close>, on the Cauchy
  distribution function: three kernels of unit sum.\<close>

lemma create_blur_filters_example:
  "\<exists>bank. create_blur_filters cauchy_cdf 3 3 9 = Inr bank \<and> length bank = 3
     \<and> kernel_sum (bank ! 0) = Fin 1 \<and> kernel_sum (bank ! 1) = Fin 1
     \<and> kernel_sum (bank ! 2) = Fin 1"
proof -
  from create_blur_filters_unit_sum [OF cauchy_cdf_strict_mono, of 9 3 3]
  obtain bank where bank: "create_blur_filters cauchy_cdf 3 3 9 = Inr bank" "length bank = 3"
      "\<forall>kern \<in> set bank. kernel_sum kern = Fin 1 \<and> length kern = 9 - 1"
    by auto
  then have "bank ! 0 \<in> set bank" "bank ! 1 \<in> set bank" "bank ! 2 \<in> set bank"
    by simp_all
  with bank show ?thesis by blast
qed

text \<open>
  Claim C8 says that \<open>create_blur_filters\<close> builds exactly \<open>num_filters\<close> kernels and that
  every kernel sums to 1 within \<open>1e-5\<close>. The code does not at \<open>filter_size = 1\<close>:
  \<open>gaussian_kernel\<close> differences a grid of \<open>size\<close> points, so a kernel has \<open>size - 1\<close> rows
  and columns (its docstring promises a kernel of the given size), and the one kernel
  of \<open>create_blur_filters(1, 1.0, 1)\<close> is the empty array, whose sum is 0. This holds for
  every distribution function \<open>cdf\<close>, the normal one included.
\<close>

theorem create_blur_filters_size_one:
  "create_blur_filters cdf 1 1 1 = Inr [[]]
   \<and> kernel_sum [] = Fin 0
   \<and> kernel_sum [] \<noteq> Fin 1"
  by (simp add: create_blur_filters_def gaussian_kernel_def gaussian_kernel_array_size_one
      np_linspace_def bind_err_def kernel_sum_def reduce_sum_def)

subsection \<open>The scale factors of a resize and of the resize back\<close>

text \<open>In exact arithmetic the factor of a resize to the images' own size is 1, and the
  factors of a resize from \<open>a\<close> to \<open>b\<close> and back multiply to 1. (Whether the images
  themselves come back, and within which tolerance, depends on the transforms and on
  float32 rounding.)\<close>

lemma resize_scale_same_size:
  "0 < pad_factor \<Longrightarrow> 0 < xsize \<Longrightarrow> resize_scale pad_factor xsize xsize = Fin 1"
  by (simp add: resize_scale_def resize_norm_def)

lemma resize_scale_round_trip:
  assumes "0 < pad_factor" "0 < a" "0 < b"
  shows "tf_mul (resize_scale pad_factor a b) (resize_scale pad_factor b a) = Fin 1"
  using assms by (simp add: resize_scale_def resize_norm_def)

end
